theory Spec2Isabelle
  imports Complex_Main "HOL-Library.AList" "HOL-Library.Sublist" "HOL-Library.Log_Nat"
begin

section \<open>Conventions\<close>

text \<open>
  A shallow embedding of the floorplanner's partitioning code:
  \<^item> \<^verbatim>\<open>graph.py\<close> (the dataflow graph built from the RTL),
  \<^item> \<^verbatim>\<open>Floorplan/Partition.py\<close> (the outer two-phase search),
  \<^item> \<^verbatim>\<open>Floorplan/FourWayPartition.py\<close> (the four-way ILP and its retry loop).

  A Python name with a leading underscore, \<^verbatim>\<open>_foo\<close>, is written \<open>u_foo\<close>.
  Python exceptions are values of the type \<open>error\<close>; a function that can raise returns
  \<open>error + 'a\<close>, with \<open>Inl\<close> for the exception. Python dictionaries are association lists
  in insertion order, written with \<open>AList.update\<close> and read with \<open>map_of\<close>. Python floats
  and integers used as numbers are exact rationals: rounding error, infinities and NaN
  are outside the model. Logging and printing are left out.
\<close>

datatype error =
    AssertionError string
  | KeyError
  | IndexError
  | AttributeError
  | TypeError
  | ValueError
  | NotImplementedError string

section \<open>graph.py\<close>

subsection \<open>Edge and Vertex objects\<close>

text \<open>
  Objects are mutable and shared: an \<open>Edge\<close> is referenced from the lists of several
  vertices while its own fields are still being assigned. Objects therefore live in a
  store and are named by their address (a natural number).
\<close>

record Edge =
  src :: "nat option"
  dst :: "nat option"
  src_sub :: "nat option"
  dst_sub :: "nat option"
  width :: int
  depth :: int
  addr_width :: int
  e_name :: string
  mark :: bool
  latency :: int

definition Edge_init :: "string \<Rightarrow> Edge" where
  "Edge_init nm =
     \<lparr>src = None, dst = None, src_sub = None, dst_sub = None,
      width = - 1, depth = - 1, addr_width = - 1, e_name = nm, mark = False, latency = 1\<rparr>"

record Vertex =
  in_edges :: "nat list"
  out_edges :: "nat list"
  v_type :: string
  v_name :: string
  upstream :: "nat list"
  downstream :: "nat list"
  area :: "int \<times> int \<times> int \<times> int"
  slr_loc :: int
  slr_sub_loc :: int
  sub_vertices :: "(string \<times> nat) list"
  actual_to_sub :: "(string \<times> nat) list"

definition Vertex_init :: "string \<Rightarrow> string \<Rightarrow> Vertex" where
  "Vertex_init ty nm =
     \<lparr>in_edges = [], out_edges = [], v_type = ty, v_name = nm, upstream = [], downstream = [],
      area = (- 1, - 1, - 1, - 1), slr_loc = - 1, slr_sub_loc = - 1,
      sub_vertices = [], actual_to_sub = []\<rparr>"

text \<open>\<^verbatim>\<open>def add_in(self, edge): self.out_edges.append(edge)\<close>\<close>

definition add_in :: "Vertex \<Rightarrow> nat \<Rightarrow> Vertex" where
  "add_in v edge = v\<lparr>out_edges := out_edges v @ [edge]\<rparr>"

text \<open>\<^verbatim>\<open>def add_out(self, edge): self.in_edges.append(edge)\<close>\<close>

definition add_out :: "Vertex \<Rightarrow> nat \<Rightarrow> Vertex" where
  "add_out v edge = v\<lparr>in_edges := in_edges v @ [edge]\<rparr>"

subsection \<open>The RTL instance and the formator\<close>

text \<open>
  The parsed RTL and the \<open>formator\<close> object are not part of these sources. An instance
  node is its module name, its instance name and its port list; the argument of a port is
  an identifier or some other expression. The formator's methods are parameters.
\<close>

datatype argexpr = Identifier string | OtherExpr

record portarg =
  portname :: string
  argname :: argexpr

record node =
  n_module :: string
  n_name :: string
  portlist :: "portarg list"

record formator =
  isValidInstance :: "node \<Rightarrow> bool"
  isFIFO :: "node \<Rightarrow> bool"
  extractFIFOWidth :: "node \<Rightarrow> int"
  extractFIFODepth :: "node \<Rightarrow> int"

subsection \<open>The graph\<close>

record Graph =
  vertices :: "(string \<times> nat) list"
  edges :: "(string \<times> nat) list"
  edge_to_vertex :: "(string \<times> nat) list"
  vertex_store :: "nat \<Rightarrow> Vertex"
  edge_store :: "nat \<Rightarrow> Edge"
  next_edge :: nat

text \<open>Calling a method of the vertex object at address \<open>a\<close> updates the store there.\<close>

definition call_add_in :: "Graph \<Rightarrow> nat \<Rightarrow> nat \<Rightarrow> Graph" where
  "call_add_in g a e = g\<lparr>vertex_store := (vertex_store g)(a := add_in (vertex_store g a) e)\<rparr>"

definition call_add_out :: "Graph \<Rightarrow> nat \<Rightarrow> nat \<Rightarrow> Graph" where
  "call_add_out g a e = g\<lparr>vertex_store := (vertex_store g)(a := add_out (vertex_store g a) e)\<rparr>"

definition set_dst :: "Graph \<Rightarrow> nat \<Rightarrow> nat \<Rightarrow> Graph" where
  "set_dst g e a = g\<lparr>edge_store := (edge_store g)(e := (edge_store g e)\<lparr>dst := Some a\<rparr>)\<rparr>"

definition set_src :: "Graph \<Rightarrow> nat \<Rightarrow> nat \<Rightarrow> Graph" where
  "set_src g e a = g\<lparr>edge_store := (edge_store g)(e := (edge_store g e)\<lparr>src := Some a\<rparr>)\<rparr>"

text \<open>
  The body of the loop over \<^verbatim>\<open>node.portlist\<close> in \<^verbatim>\<open>initEdges\<close>, for the edge object at
  address \<open>e\<close>. The source tests the same two conditions three times in a row (set up the
  edge, set up the vertices, set up the sub vertices); the three steps are \<open>g1\<close>, \<open>g2\<close>
  and the result. The last step sits in a \<^verbatim>\<open>try\<close> with a bare \<^verbatim>\<open>except\<close>: a missing key
  of \<^verbatim>\<open>actual_to_sub\<close> leaves the graph as it is.
\<close>

definition initEdges_port :: "Graph \<Rightarrow> nat \<Rightarrow> portarg \<Rightarrow> error + Graph" where
  "initEdges_port g e p =
     (case argname p of
        OtherExpr \<Rightarrow> Inr g
      | Identifier actual_raw \<Rightarrow>
          (let formal_raw = portname p in
           if sublist ''_dout'' actual_raw \<and> sublist ''_dout'' formal_raw then
             (case map_of (edge_to_vertex g) actual_raw of
                None \<Rightarrow> Inl KeyError
              | Some d \<Rightarrow>
                  (let g1 = set_dst g e d;
                       g2 = call_add_in g1 d e
                   in case map_of (actual_to_sub (vertex_store g2 d)) (e_name (edge_store g2 e)) of
                        None \<Rightarrow> Inr g2
                      | Some s \<Rightarrow> Inr (call_add_in g2 s e)))
           else if sublist ''_din'' actual_raw \<and> sublist ''_din'' formal_raw then
             (case map_of (edge_to_vertex g) actual_raw of
                None \<Rightarrow> Inl KeyError
              | Some d \<Rightarrow>
                  (let g1 = set_src g e d;
                       g2 = call_add_out g1 d e
                   in case map_of (actual_to_sub (vertex_store g2 d)) (e_name (edge_store g2 e)) of
                        None \<Rightarrow> Inr g2
                      | Some s \<Rightarrow> Inr (call_add_out g2 s e)))
           else Inr g))"

fun initEdges_ports :: "Graph \<Rightarrow> nat \<Rightarrow> portarg list \<Rightarrow> error + Graph" where
  "initEdges_ports g e [] = Inr g"
| "initEdges_ports g e (p # ps) =
     (case initEdges_port g e p of
        Inl err \<Rightarrow> Inl err
      | Inr g' \<Rightarrow> initEdges_ports g' e ps)"

text \<open>
  \<^verbatim>\<open>int(math.log2(e.depth) + 1)\<close>: the logarithm raises \<^verbatim>\<open>ValueError\<close> on a depth that is
  not positive; on a positive depth the value is the floor of the binary logarithm plus one.
\<close>

definition addr_width_of :: "int \<Rightarrow> error + int" where
  "addr_width_of d = (if d \<le> 0 then Inl ValueError else Inr (int (floorlog 2 (nat d))))"

text \<open>
  \<^verbatim>\<open>initEdges\<close>: a new \<open>Edge\<close> object is allocated at the address \<open>next_edge g\<close>; the
  port loop runs on it; the dictionary \<^verbatim>\<open>self.edges\<close> gets it last.
\<close>

definition initEdges :: "formator \<Rightarrow> Graph \<Rightarrow> node \<Rightarrow> error + Graph" where
  "initEdges fm g nd =
     (if \<not> isValidInstance fm nd then Inr g
      else if \<not> isFIFO fm nd then Inr g
      else
        (let e = next_edge g;
             w = extractFIFOWidth fm nd;
             d = extractFIFODepth fm nd
         in case addr_width_of d of
              Inl err \<Rightarrow> Inl err
            | Inr aw \<Rightarrow>
                (let g0 = g\<lparr>edge_store := (edge_store g)
                              (e := (Edge_init (n_name nd))\<lparr>width := w, depth := d, addr_width := aw\<rparr>),
                            next_edge := Suc e\<rparr>
                 in case initEdges_ports g0 e (portlist nd) of
                      Inl err \<Rightarrow> Inl err
                    | Inr g' \<Rightarrow> Inr (g'\<lparr>edges := AList.update (n_name nd) e (edges g')\<rparr>))))"

text \<open>
  The property the port loop keeps for the edge at address \<open>e\<close>: its destination
  vertex, once assigned, lists it in \<open>out_edges\<close>, and its source vertex, once assigned,
  lists it in \<open>in_edges\<close>.
\<close>

definition edge_registered :: "Graph \<Rightarrow> nat \<Rightarrow> bool" where
  "edge_registered g e =
     ((case dst (edge_store g e) of None \<Rightarrow> True
       | Some d \<Rightarrow> e \<in> set (out_edges (vertex_store g d))) \<and>
      (case src (edge_store g e) of None \<Rightarrow> True
       | Some s \<Rightarrow> e \<in> set (in_edges (vertex_store g s))))"

text \<open>The two kinds of port that \<^verbatim>\<open>initEdges\<close> acts on, in the order the source tests them.\<close>

definition is_dout_port :: "portarg \<Rightarrow> bool" where
  "is_dout_port p =
     (case argname p of
        OtherExpr \<Rightarrow> False
      | Identifier a \<Rightarrow> sublist ''_dout'' a \<and> sublist ''_dout'' (portname p))"

definition is_din_port :: "portarg \<Rightarrow> bool" where
  "is_din_port p =
     (case argname p of
        OtherExpr \<Rightarrow> False
      | Identifier a \<Rightarrow>
          \<not> (sublist ''_dout'' a \<and> sublist ''_dout'' (portname p)) \<and>
          sublist ''_din'' a \<and> sublist ''_din'' (portname p))"

subsection \<open>A small graph: one FIFO between two modules\<close>

definition fm_ex :: formator where
  "fm_ex = \<lparr>isValidInstance = (\<lambda>_. True), isFIFO = (\<lambda>_. True),
            extractFIFOWidth = (\<lambda>_. 32), extractFIFODepth = (\<lambda>_. 16)\<rparr>"

definition g_ex :: Graph where
  "g_ex = \<lparr>vertices = [(''A'', 0), (''B'', 1)], edges = [],
           edge_to_vertex = [(''f_din'', 0), (''f_dout'', 1)],
           vertex_store = (\<lambda>a. if a = 0 then Vertex_init ''modA'' ''A'' else Vertex_init ''modB'' ''B''),
           edge_store = (\<lambda>_. Edge_init []), next_edge = 0\<rparr>"

definition nd_ex :: node where
  "nd_ex = \<lparr>n_module = ''fifo'', n_name = ''f'',
            portlist = [\<lparr>portname = ''if_din'', argname = Identifier ''f_din''\<rparr>,
                        \<lparr>portname = ''clk'', argname = OtherExpr\<rparr>,
                        \<lparr>portname = ''if_dout'', argname = Identifier ''f_dout''\<rparr>]\<rparr>"

section \<open>Python helpers\<close>

text \<open>Sequencing of computations that can raise.\<close>

definition bind_err :: "error + 'a \<Rightarrow> ('a \<Rightarrow> error + 'b) \<Rightarrow> error + 'b" where
  "bind_err r f = (case r of Inl e \<Rightarrow> Inl e | Inr x \<Rightarrow> f x)"

text \<open>\<^verbatim>\<open>for x in xs: body\<close>, on a state that the body updates.\<close>

fun for_each :: "'a list \<Rightarrow> ('a \<Rightarrow> 'st \<Rightarrow> error + 'st) \<Rightarrow> 'st \<Rightarrow> error + 'st" where
  "for_each [] body s = Inr s"
| "for_each (x # xs) body s =
     (case body x s of Inl e \<Rightarrow> Inl e | Inr s' \<Rightarrow> for_each xs body s')"

text \<open>\<^verbatim>\<open>d[k]\<close> on a dictionary raises \<^verbatim>\<open>KeyError\<close> on a missing key.\<close>

definition lookup :: "('k \<times> 'a) list \<Rightarrow> 'k \<Rightarrow> error + 'a" where
  "lookup d k = (case map_of d k of None \<Rightarrow> Inl KeyError | Some v \<Rightarrow> Inr v)"

text \<open>\<^verbatim>\<open>xs[i]\<close> on a list: an index below zero counts from the end, and an index outside
  the list raises \<^verbatim>\<open>IndexError\<close>.\<close>

definition list_get :: "'a list \<Rightarrow> int \<Rightarrow> error + 'a" where
  "list_get xs i =
     (if 0 \<le> i \<and> i < int (length xs) then Inr (xs ! nat i)
      else if i < 0 \<and> - int (length xs) \<le> i then Inr (xs ! nat (int (length xs) + i))
      else Inl IndexError)"

text \<open>\<^verbatim>\<open>int(x)\<close> on a number truncates towards zero.\<close>

definition py_int :: "rat \<Rightarrow> int" where
  "py_int q = (if 0 \<le> q then \<lfloor>q\<rfloor> else \<lceil>q\<rceil>)"

text \<open>\<^verbatim>\<open>round(x, n)\<close>: to the nearest multiple of \<open>10 ^ - n\<close>, a tie going to the even one.\<close>

definition round_half_even :: "rat \<Rightarrow> int" where
  "round_half_even q =
     (let f = \<lfloor>q\<rfloor>; d = q - of_int f
      in if d < 1 / 2 then f else if 1 / 2 < d then f + 1 else if even f then f else f + 1)"

definition py_round :: "rat \<Rightarrow> nat \<Rightarrow> rat" where
  "py_round q n = of_int (round_half_even (q * 10 ^ n)) / 10 ^ n"

section \<open>The ILP model (the \<^verbatim>\<open>mip\<close> package)\<close>

text \<open>
  The solver package is not part of these sources. A model is the list of its variables
  (a variable is named by its position), the list of its constraints and its objective;
  \<^verbatim>\<open>m += lhs <= rhs\<close> appends a constraint. Linear expressions are kept as written.
\<close>

datatype var_type = BINARY | INTEGER

datatype lin_expr =
    LVar nat
  | LConst rat
  | LAdd lin_expr lin_expr
  | LSub lin_expr lin_expr
  | LMul rat lin_expr
  | LNeg lin_expr

datatype sense = LE | GE | EQ

datatype constr = Constr lin_expr sense lin_expr

record Model =
  vars :: "(var_type \<times> string) list"
  constrs :: "constr list"
  objective :: "lin_expr option"

definition Model_init :: Model where
  "Model_init = \<lparr>vars = [], constrs = [], objective = None\<rparr>"

definition add_var :: "Model \<Rightarrow> var_type \<Rightarrow> string \<Rightarrow> nat \<times> Model" where
  "add_var m ty nm = (length (vars m), m\<lparr>vars := vars m @ [(ty, nm)]\<rparr>)"

definition add_constr :: "Model \<Rightarrow> constr \<Rightarrow> Model" where
  "add_constr m c = m\<lparr>constrs := constrs m @ [c]\<rparr>"

definition xsum :: "lin_expr list \<Rightarrow> lin_expr" where
  "xsum es = foldr LAdd es (LConst 0)"

text \<open>The value of an expression and the truth of a constraint under an assignment.\<close>

fun eval :: "(nat \<Rightarrow> rat) \<Rightarrow> lin_expr \<Rightarrow> rat" where
  "eval \<sigma> (LVar i) = \<sigma> i"
| "eval \<sigma> (LConst c) = c"
| "eval \<sigma> (LAdd a b) = eval \<sigma> a + eval \<sigma> b"
| "eval \<sigma> (LSub a b) = eval \<sigma> a - eval \<sigma> b"
| "eval \<sigma> (LMul c a) = c * eval \<sigma> a"
| "eval \<sigma> (LNeg a) = - eval \<sigma> a"

fun holds :: "(nat \<Rightarrow> rat) \<Rightarrow> constr \<Rightarrow> bool" where
  "holds \<sigma> (Constr l LE r) = (eval \<sigma> l \<le> eval \<sigma> r)"
| "holds \<sigma> (Constr l GE r) = (eval \<sigma> l \<ge> eval \<sigma> r)"
| "holds \<sigma> (Constr l EQ r) = (eval \<sigma> l = eval \<sigma> r)"

definition satisfies :: "(nat \<Rightarrow> rat) \<Rightarrow> Model \<Rightarrow> bool" where
  "satisfies \<sigma> m = list_all (holds \<sigma>) (constrs m)"

text \<open>A 0/1 assignment gives every variable the value 0 or 1.\<close>

definition zero_one :: "(nat \<Rightarrow> rat) \<Rightarrow> bool" where
  "zero_one \<sigma> = (\<forall>i. \<sigma> i = 0 \<or> \<sigma> i = 1)"

datatype OptimizationStatus =
    ERROR | OPTIMAL | INFEASIBLE | UNBOUNDED | FEASIBLE | INT_INFEASIBLE
  | NO_SOLUTION_FOUND | LOADED | CUTOFF | OTHER

text \<open>What \<^verbatim>\<open>m.optimize\<close> leaves behind: \<^verbatim>\<open>m.status\<close> and the value \<^verbatim>\<open>.x\<close> of each variable.\<close>

record solved =
  status :: OptimizationStatus
  var_x :: "nat \<Rightarrow> rat"

section \<open>The floorplanner's collaborators\<close>

text \<open>
  \<open>Vertex\<close>, \<open>Edge\<close> (of the dataflow graph used by the floorplanner), \<open>Slot\<close>,
  \<open>SlotManager\<close> and the module \<open>Utilities\<close> are not part of these sources. Vertices,
  slots and slot managers are type parameters \<open>'v\<close>, \<open>'s\<close>, \<open>'m\<close> compared by equality;
  their methods, the constant \<^verbatim>\<open>RESOURCE_TYPES\<close>, \<^verbatim>\<open>get_all_edges\<close> and the solver are
  parameters, collected in one record.
\<close>

datatype Dir = horizontal | vertical

record 'v df_edge =
  edge_src :: 'v
  edge_dst :: 'v
  edge_width :: rat
  edge_name :: string

record ('v, 's, 'm) env =
  RESOURCE_TYPES :: "string list"
  vertex_name :: "'v \<Rightarrow> string"
  getVertexAndInboundFIFOArea :: "'v \<Rightarrow> string \<Rightarrow> rat"
  get_all_edges :: "'v list \<Rightarrow> 'v df_edge list"
  getArea :: "'s \<Rightarrow> string \<Rightarrow> rat"
  containsChildSlot :: "'s \<Rightarrow> 's \<Rightarrow> bool"
  getLeafSlotsAfterPartition :: "'m \<Rightarrow> Dir list \<Rightarrow> 's list"
  optimize :: "Model \<Rightarrow> rat \<Rightarrow> solved"

section \<open>Floorplan/ILPUtilities.py\<close>

text \<open>
  Modelled from the spec: the module \<^verbatim>\<open>ILPUtilities\<close> (\<^verbatim>\<open>get_var_of_logic_and\<close>,
  \<^verbatim>\<open>get_var_of_logic_or\<close>, \<^verbatim>\<open>get_var_of_logic_not\<close>, \<^verbatim>\<open>get_var_of_logic_xor\<close>,
  \<^verbatim>\<open>get_var_of_equal_zero\<close>, \<^verbatim>\<open>get_var_of_equal_one\<close>) is missing from the sources.
  Each primitive adds one auxiliary binary variable \<open>c\<close> and the linear constraints the
  specification lists for it, and returns \<open>c\<close>.
\<close>

definition get_var_of_logic_and :: "Model \<Rightarrow> lin_expr \<Rightarrow> lin_expr \<Rightarrow> lin_expr \<times> Model" where
  "get_var_of_logic_and m a b =
     (let (c, m1) = add_var m BINARY []
      in (LVar c, m1\<lparr>constrs := constrs m1 @
            [Constr (LVar c) LE a, Constr (LVar c) LE b,
             Constr (LVar c) GE (LSub (LAdd a b) (LConst 1))]\<rparr>))"

definition get_var_of_logic_or :: "Model \<Rightarrow> lin_expr \<Rightarrow> lin_expr \<Rightarrow> lin_expr \<times> Model" where
  "get_var_of_logic_or m a b =
     (let (c, m1) = add_var m BINARY []
      in (LVar c, m1\<lparr>constrs := constrs m1 @
            [Constr (LVar c) GE a, Constr (LVar c) GE b, Constr (LVar c) LE (LAdd a b)]\<rparr>))"

definition get_var_of_logic_not :: "Model \<Rightarrow> lin_expr \<Rightarrow> lin_expr \<times> Model" where
  "get_var_of_logic_not m a =
     (let (c, m1) = add_var m BINARY []
      in (LVar c, add_constr m1 (Constr (LVar c) EQ (LSub (LConst 1) a))))"

definition get_var_of_logic_xor :: "Model \<Rightarrow> lin_expr \<Rightarrow> lin_expr \<Rightarrow> lin_expr \<times> Model" where
  "get_var_of_logic_xor m a b =
     (let (c, m1) = add_var m BINARY []
      in (LVar c, m1\<lparr>constrs := constrs m1 @
            [Constr (LVar c) GE (LSub a b), Constr (LVar c) GE (LSub b a),
             Constr (LVar c) LE (LAdd a b),
             Constr (LVar c) LE (LSub (LSub (LConst 2) a) b)]\<rparr>))"

definition get_var_of_equal_zero :: "Model \<Rightarrow> lin_expr \<Rightarrow> lin_expr \<times> Model" where
  "get_var_of_equal_zero m a =
     (let (c, m1) = add_var m BINARY []
      in (LVar c, add_constr m1 (Constr (LVar c) EQ (LSub (LConst 1) a))))"

definition get_var_of_equal_one :: "Model \<Rightarrow> lin_expr \<Rightarrow> lin_expr \<times> Model" where
  "get_var_of_equal_one m a =
     (let (c, m1) = add_var m BINARY []
      in (LVar c, add_constr m1 (Constr (LVar c) EQ a)))"

section \<open>Floorplan/FourWayPartition.py\<close>

subsection \<open>Variables and the leaf slots\<close>

text \<open>
  \<^verbatim>\<open>for v in v_list: v2var_y1[v] = m.add_var(...); v2var_y2[v] = m.add_var(...)\<close>
\<close>

fun add_y_vars ::
  "('v, 's, 'm) env \<Rightarrow> 'v list \<Rightarrow> ('v \<times> nat) list \<times> ('v \<times> nat) list \<times> Model \<Rightarrow>
     ('v \<times> nat) list \<times> ('v \<times> nat) list \<times> Model" where
  "add_y_vars env [] st = st"
| "add_y_vars env (v # vs) (v2var_y1, v2var_y2, m) =
     (let (a, m1) = add_var m BINARY (vertex_name env v @ ''_y1'');
          (b, m2) = add_var m1 BINARY (vertex_name env v @ ''_y2'')
      in add_y_vars env vs (AList.update v a v2var_y1, AList.update v b v2var_y2, m2))"

text \<open>A dictionary comprehension \<^verbatim>\<open>{k: m.add_var(var_type=ty, name=nm(k)) for k in ks}\<close>.\<close>

fun add_var_for_each ::
  "var_type \<Rightarrow> ('k \<Rightarrow> string) \<Rightarrow> 'k list \<Rightarrow> ('k \<times> nat) list \<times> Model \<Rightarrow> ('k \<times> nat) list \<times> Model" where
  "add_var_for_each ty nm [] st = st"
| "add_var_for_each ty nm (k # ks) (d, m) =
     (let (c, m1) = add_var m ty (nm k)
      in add_var_for_each ty nm ks (AList.update k c d, m1))"

text \<open>
  \<^verbatim>\<open>_get_slot_by_idx_closure\<close> returns a function closed over \<^verbatim>\<open>all_leaf_slots\<close>:
  \<^verbatim>\<open>idx = y1 * 2 + y2; return all_leaf_slots[idx]\<close>.
\<close>

definition u_get_slot_by_idx_closure ::
  "('v, 's, 'm) env \<Rightarrow> 'm \<Rightarrow> (int \<Rightarrow> int \<Rightarrow> error + 's)" where
  "u_get_slot_by_idx_closure env slot_manager =
     (let partition_order = [horizontal, horizontal];
          all_leaf_slots = getLeafSlotsAfterPartition env slot_manager partition_order
      in (\<lambda>y1 y2. list_get all_leaf_slots (y1 * 2 + y2)))"

text \<open>\<^verbatim>\<open>product(range(2), range(2))\<close>\<close>

definition product_2_2 :: "(int \<times> int) list" where
  "product_2_2 = [(0, 0), (0, 1), (1, 0), (1, 1)]"

definition u_get_slot_to_idx ::
  "(int \<Rightarrow> int \<Rightarrow> error + 's) \<Rightarrow> error + ('s \<times> int \<times> int) list" where
  "u_get_slot_to_idx func_get_slot_by_idx =
     for_each product_2_2
       (\<lambda>(y1, y2) slot_to_idx.
          bind_err (func_get_slot_by_idx y1 y2)
            (\<lambda>slot. Inr (AList.update slot (y1, y2) slot_to_idx)))
       []"

subsection \<open>Area constraints\<close>

text \<open>\<^verbatim>\<open>choose = lambda x, num: x if num == 1 else (1-x)\<close>\<close>

definition choose_expr :: "lin_expr \<Rightarrow> int \<Rightarrow> lin_expr" where
  "choose_expr x num = (if num = 1 then x else LSub (LConst 1) x)"

definition str_of_bit :: "int \<Rightarrow> string" where
  "str_of_bit b = (if b = 0 then ''0'' else ''1'')"

text \<open>The three constraints that make \<open>prods[v]\<close> the conjunction, for one vertex.\<close>

definition add_choose_constraints ::
  "('v \<times> nat) list \<Rightarrow> ('v \<times> nat) list \<Rightarrow> ('v \<times> nat) list \<Rightarrow> int \<Rightarrow> int \<Rightarrow> 'v \<Rightarrow> Model \<Rightarrow>
     error + Model" where
  "add_choose_constraints v2var_y1 v2var_y2 prods y1 y2 v m =
     bind_err (lookup v2var_y1 v) (\<lambda>a.
     bind_err (lookup prods v) (\<lambda>p.
     bind_err (lookup v2var_y2 v) (\<lambda>b.
       Inr (m\<lparr>constrs := constrs m @
              [Constr (choose_expr (LVar a) y1) GE (LVar p),
               Constr (choose_expr (LVar b) y2) GE (LVar p),
               Constr (LSub (LAdd (choose_expr (LVar a) y1) (choose_expr (LVar b) y2)) (LVar p)) LE
                      (LConst 1)]\<rparr>))))"

text \<open>The body of the loop over \<^verbatim>\<open>product(range(2), range(2))\<close>, for the resource \<open>r\<close>.\<close>

definition add_area_constraints_leaf ::
  "('v, 's, 'm) env \<Rightarrow> 'v list \<Rightarrow> ('v \<times> nat) list \<Rightarrow> ('v \<times> nat) list \<Rightarrow>
     (int \<Rightarrow> int \<Rightarrow> error + 's) \<Rightarrow> rat \<Rightarrow> string \<Rightarrow> int \<times> int \<Rightarrow> Model \<Rightarrow> error + Model" where
  "add_area_constraints_leaf env v_list v2var_y1 v2var_y2 func_get_slot_by_idx max_usage_ratio r =
     (\<lambda>(y1, y2) m.
        let (prods, m1) =
              add_var_for_each BINARY
                (\<lambda>v. vertex_name env v @ ''_choose'' @ str_of_bit y1 @ str_of_bit y2) v_list ([], m)
        in bind_err (for_each v_list (add_choose_constraints v2var_y1 v2var_y2 prods y1 y2) m1) (\<lambda>m2.
           bind_err (for_each v_list
                       (\<lambda>v ts. bind_err (lookup prods v) (\<lambda>p.
                          Inr (ts @ [LMul (getVertexAndInboundFIFOArea env v r) (LVar p)]))) [])
             (\<lambda>ts.
           bind_err (func_get_slot_by_idx y1 y2) (\<lambda>slot.
             Inr (add_constr m2
                    (Constr (xsum ts) LE (LConst (getArea env slot r * max_usage_ratio))))))))"

definition u_add_area_constraints ::
  "('v, 's, 'm) env \<Rightarrow> Model \<Rightarrow> 'v list \<Rightarrow> ('v \<times> nat) list \<Rightarrow> ('v \<times> nat) list \<Rightarrow>
     (int \<Rightarrow> int \<Rightarrow> error + 's) \<Rightarrow> rat \<Rightarrow> error + Model" where
  "u_add_area_constraints env m v_list v2var_y1 v2var_y2 func_get_slot_by_idx max_usage_ratio =
     for_each (RESOURCE_TYPES env)
       (\<lambda>r. for_each product_2_2
          (add_area_constraints_leaf env v_list v2var_y1 v2var_y2 func_get_slot_by_idx
             max_usage_ratio r))
       m"

subsection \<open>Crossing constraints\<close>

text \<open>
  \<^verbatim>\<open>is_edge_cross_slr_0_1\<close>: the arguments are evaluated from left to right, each
  primitive adding its variable to the model as it is called.
\<close>

definition is_edge_cross_slr_0_1 ::
  "Model \<Rightarrow> ('v \<times> nat) list \<Rightarrow> ('v \<times> nat) list \<Rightarrow> 'v df_edge \<Rightarrow> error + lin_expr \<times> Model" where
  "is_edge_cross_slr_0_1 m v2var_y1 v2var_y2 e =
     bind_err (lookup v2var_y1 (edge_src e)) (\<lambda>a1.
     let (s1, m) = get_var_of_equal_zero m (LVar a1) in
     bind_err (lookup v2var_y2 (edge_src e)) (\<lambda>a2.
     let (s2, m) = get_var_of_equal_zero m (LVar a2);
         (src_in_slr0, m) = get_var_of_logic_and m s1 s2 in
     bind_err (lookup v2var_y1 (edge_dst e)) (\<lambda>b1.
     let (d1, m) = get_var_of_equal_zero m (LVar b1) in
     bind_err (lookup v2var_y2 (edge_dst e)) (\<lambda>b2.
     let (d2, m) = get_var_of_equal_zero m (LVar b2);
         (dst_in_slr0, m) = get_var_of_logic_and m d1 d2;
         (src_not_in_slr0, m) = get_var_of_logic_not m src_in_slr0;
         (dst_not_in_slr0, m) = get_var_of_logic_not m dst_in_slr0;
         (l, m) = get_var_of_logic_and m src_in_slr0 dst_not_in_slr0;
         (r, m) = get_var_of_logic_and m dst_in_slr0 src_not_in_slr0
     in Inr (get_var_of_logic_or m l r)))))"

definition is_edge_cross_slr_1_2 ::
  "Model \<Rightarrow> ('v \<times> nat) list \<Rightarrow> 'v df_edge \<Rightarrow> error + lin_expr \<times> Model" where
  "is_edge_cross_slr_1_2 m v2var_y1 e =
     bind_err (lookup v2var_y1 (edge_src e)) (\<lambda>a.
     bind_err (lookup v2var_y1 (edge_dst e)) (\<lambda>b.
       Inr (get_var_of_logic_xor m (LVar a) (LVar b))))"

definition is_edge_cross_slr_2_3 ::
  "Model \<Rightarrow> ('v \<times> nat) list \<Rightarrow> ('v \<times> nat) list \<Rightarrow> 'v df_edge \<Rightarrow> error + lin_expr \<times> Model" where
  "is_edge_cross_slr_2_3 m v2var_y1 v2var_y2 e =
     bind_err (lookup v2var_y1 (edge_src e)) (\<lambda>a1.
     let (s1, m) = get_var_of_equal_one m (LVar a1) in
     bind_err (lookup v2var_y2 (edge_src e)) (\<lambda>a2.
     let (s2, m) = get_var_of_equal_one m (LVar a2);
         (src_in_slr3, m) = get_var_of_logic_and m s1 s2 in
     bind_err (lookup v2var_y1 (edge_dst e)) (\<lambda>b1.
     let (d1, m) = get_var_of_equal_one m (LVar b1) in
     bind_err (lookup v2var_y2 (edge_dst e)) (\<lambda>b2.
     let (d2, m) = get_var_of_equal_one m (LVar b2);
         (dst_in_slr3, m) = get_var_of_logic_and m d1 d2;
         (src_not_in_slr3, m) = get_var_of_logic_not m src_in_slr3;
         (dst_not_in_slr3, m) = get_var_of_logic_not m dst_in_slr3;
         (l, m) = get_var_of_logic_and m src_in_slr3 dst_not_in_slr3;
         (r, m) = get_var_of_logic_and m dst_in_slr3 src_not_in_slr3
     in Inr (get_var_of_logic_or m l r)))))"

text \<open>
  \<^verbatim>\<open>m += xsum(e.width * is_edge_cross(e) for e in all_edges) <= width_limit\<close>: the
  generator runs the detector on each edge in turn, on the model as the previous edge
  left it.
\<close>

definition add_crossing_constraint ::
  "(Model \<Rightarrow> 'v df_edge \<Rightarrow> error + lin_expr \<times> Model) \<Rightarrow> 'v df_edge list \<Rightarrow> rat \<Rightarrow> Model \<Rightarrow>
     error + Model" where
  "add_crossing_constraint is_edge_cross all_edges width_limit m =
     bind_err (for_each all_edges
                 (\<lambda>e (ts, m). bind_err (is_edge_cross m e)
                    (\<lambda>(c, m'). Inr (ts @ [LMul (edge_width e) c], m')))
                 ([], m))
       (\<lambda>(ts, m'). Inr (add_constr m' (Constr (xsum ts) LE (LConst width_limit))))"

definition u_add_slr_0_1_crossing_constraint ::
  "('v, 's, 'm) env \<Rightarrow> Model \<Rightarrow> 'v list \<Rightarrow> ('v \<times> nat) list \<Rightarrow> ('v \<times> nat) list \<Rightarrow> rat \<Rightarrow>
     error + Model" where
  "u_add_slr_0_1_crossing_constraint env m v_list v2var_y1 v2var_y2 width_limit =
     (let all_edges = get_all_edges env v_list
      in add_crossing_constraint (\<lambda>m e. is_edge_cross_slr_0_1 m v2var_y1 v2var_y2 e)
           all_edges width_limit m)"

definition u_add_slr_1_2_crossing_constraint ::
  "('v, 's, 'm) env \<Rightarrow> Model \<Rightarrow> 'v list \<Rightarrow> ('v \<times> nat) list \<Rightarrow> rat \<Rightarrow> error + Model" where
  "u_add_slr_1_2_crossing_constraint env m v_list v2var_y1 width_limit =
     (let all_edges = get_all_edges env v_list
      in add_crossing_constraint (\<lambda>m e. is_edge_cross_slr_1_2 m v2var_y1 e)
           all_edges width_limit m)"

definition u_add_slr_2_3_crossing_constraint ::
  "('v, 's, 'm) env \<Rightarrow> Model \<Rightarrow> 'v list \<Rightarrow> ('v \<times> nat) list \<Rightarrow> ('v \<times> nat) list \<Rightarrow> rat \<Rightarrow>
     error + Model" where
  "u_add_slr_2_3_crossing_constraint env m v_list v2var_y1 v2var_y2 width_limit =
     (let all_edges = get_all_edges env v_list
      in add_crossing_constraint (\<lambda>m e. is_edge_cross_slr_2_3 m v2var_y1 v2var_y2 e)
           all_edges width_limit m)"

subsection \<open>Grouping and pre-assignment\<close>

text \<open>
  \<^verbatim>\<open>for i in range(1, len(grouping)): for v2var in [v2var_y1, v2var_y2]:
  m += v2var[grouping[0]] == v2var[grouping[i]]\<close>. An empty group has no iteration.
\<close>

definition add_grouping ::
  "('v \<times> nat) list \<Rightarrow> ('v \<times> nat) list \<Rightarrow> 'v list \<Rightarrow> Model \<Rightarrow> error + Model" where
  "add_grouping v2var_y1 v2var_y2 grouping m =
     (case grouping of
        [] \<Rightarrow> Inr m
      | g0 # rest \<Rightarrow>
          for_each rest
            (\<lambda>gi. for_each [v2var_y1, v2var_y2]
               (\<lambda>v2var m. bind_err (lookup v2var g0) (\<lambda>a.
                           bind_err (lookup v2var gi) (\<lambda>b.
                             Inr (add_constr m (Constr (LVar a) EQ (LVar b)))))))
            m)"

definition u_add_grouping_constraints ::
  "Model \<Rightarrow> 'v list list \<Rightarrow> ('v \<times> nat) list \<Rightarrow> ('v \<times> nat) list \<Rightarrow> error + Model" where
  "u_add_grouping_constraints m grouping_constraints v2var_y1 v2var_y2 =
     for_each grouping_constraints (add_grouping v2var_y1 v2var_y2) m"

text \<open>
  The body of the loop over \<^verbatim>\<open>slot_to_idx.keys()\<close> in \<^verbatim>\<open>_add_pre_assignment\<close>: a leaf
  that contains the expected slot fixes both coordinates of \<open>v\<close>; any other leaf adds
  nothing. The loop has no \<^verbatim>\<open>else\<close> and nothing follows it.
\<close>

definition pre_assign_leaf ::
  "('v, 's, 'm) env \<Rightarrow> ('s \<times> int \<times> int) list \<Rightarrow> ('v \<times> nat) list \<Rightarrow> ('v \<times> nat) list \<Rightarrow>
     'v \<Rightarrow> 's \<Rightarrow> 's \<Rightarrow> Model \<Rightarrow> error + Model" where
  "pre_assign_leaf env slot_to_idx v2var_y1 v2var_y2 v expect_slot avail_slot m =
     (if containsChildSlot env avail_slot expect_slot then
        bind_err (lookup slot_to_idx avail_slot) (\<lambda>(y1, y2).
        bind_err (lookup v2var_y1 v) (\<lambda>a.
        let m1 = add_constr m (Constr (LVar a) EQ (LConst (of_int y1))) in
        bind_err (lookup v2var_y2 v) (\<lambda>b.
          Inr (add_constr m1 (Constr (LVar b) EQ (LConst (of_int y2)))))))
      else Inr m)"

definition pre_assign ::
  "('v, 's, 'm) env \<Rightarrow> 'v list \<Rightarrow> ('s \<times> int \<times> int) list \<Rightarrow> ('v \<times> nat) list \<Rightarrow>
     ('v \<times> nat) list \<Rightarrow> 'v \<times> 's \<Rightarrow> Model \<Rightarrow> error + Model" where
  "pre_assign env v_list slot_to_idx v2var_y1 v2var_y2 =
     (\<lambda>(v, expect_slot) m.
        if v \<notin> set v_list then
          Inl (AssertionError
                 (''ERROR: user has forced the location of a non-existing module '' @
                  vertex_name env v))
        else for_each (map fst slot_to_idx)
               (pre_assign_leaf env slot_to_idx v2var_y1 v2var_y2 v expect_slot) m)"

definition u_add_pre_assignment ::
  "('v, 's, 'm) env \<Rightarrow> Model \<Rightarrow> 'v list \<Rightarrow> ('s \<times> int \<times> int) list \<Rightarrow> ('v \<times> 's) list \<Rightarrow>
     ('v \<times> nat) list \<Rightarrow> ('v \<times> nat) list \<Rightarrow> error + Model" where
  "u_add_pre_assignment env m v_list slot_to_idx pre_assignments v2var_y1 v2var_y2 =
     for_each pre_assignments (pre_assign env v_list slot_to_idx v2var_y1 v2var_y2) m"

subsection \<open>Objective\<close>

text \<open>\<^verbatim>\<open>pos_y = lambda v : v2var_y1[v] * 2 + v2var_y2[v]\<close>\<close>

definition pos_y :: "('v \<times> nat) list \<Rightarrow> ('v \<times> nat) list \<Rightarrow> 'v \<Rightarrow> error + lin_expr" where
  "pos_y v2var_y1 v2var_y2 v =
     bind_err (lookup v2var_y1 v) (\<lambda>a.
     bind_err (lookup v2var_y2 v) (\<lambda>b.
       Inr (LAdd (LMul 2 (LVar a)) (LVar b))))"

text \<open>\<^verbatim>\<open>cost_y = lambda e : pos_y(e.src) - pos_y(e.dst)\<close>\<close>

definition cost_y :: "('v \<times> nat) list \<Rightarrow> ('v \<times> nat) list \<Rightarrow> 'v df_edge \<Rightarrow> error + lin_expr" where
  "cost_y v2var_y1 v2var_y2 e =
     bind_err (pos_y v2var_y1 v2var_y2 (edge_src e)) (\<lambda>ps.
     bind_err (pos_y v2var_y1 v2var_y2 (edge_dst e)) (\<lambda>pd.
       Inr (LSub ps pd)))"

definition u_add_opt_goal ::
  "('v, 's, 'm) env \<Rightarrow> Model \<Rightarrow> 'v list \<Rightarrow> ('v \<times> nat) list \<Rightarrow> ('v \<times> nat) list \<Rightarrow> error + Model" where
  "u_add_opt_goal env m v_list v2var_y1 v2var_y2 =
     (let all_edges = get_all_edges env v_list;
          (e2cost_var, m1) =
             add_var_for_each INTEGER (\<lambda>e. ''intra_'' @ edge_name e) all_edges ([], m)
      in bind_err (for_each e2cost_var
                     (\<lambda>(e, cost_var) m.
                        bind_err (cost_y v2var_y1 v2var_y2 e) (\<lambda>c1.
                        let m' = add_constr m (Constr (LVar cost_var) GE c1) in
                        bind_err (cost_y v2var_y1 v2var_y2 e) (\<lambda>c2.
                          Inr (add_constr m' (Constr (LVar cost_var) GE (LNeg c2))))))
                     m1)
           (\<lambda>m2. Inr (m2\<lparr>objective :=
                     Some (xsum (map (\<lambda>(e, cost_var). LMul (edge_width e) (LVar cost_var))
                                   e2cost_var))\<rparr>)))"

subsection \<open>Results\<close>

text \<open>
  \<^verbatim>\<open>_get_results\<close>: any status other than \<^verbatim>\<open>OPTIMAL\<close> and \<^verbatim>\<open>FEASIBLE\<close> returns the empty
  dictionary; otherwise each vertex gets the slot at \<^verbatim>\<open>(int(y1.x), int(y2.x))\<close>
  (\<open>select_slot\<close> is the body of the loop over \<^verbatim>\<open>v_list\<close>).
\<close>

definition select_slot ::
  "solved \<Rightarrow> (int \<Rightarrow> int \<Rightarrow> error + 's) \<Rightarrow> ('v \<times> nat) list \<Rightarrow> ('v \<times> nat) list \<Rightarrow> 'v \<Rightarrow>
     ('v \<times> 's) list \<Rightarrow> error + ('v \<times> 's) list" where
  "select_slot m func_get_slot_by_idx v2var_y1 v2var_y2 v next_v2s =
     bind_err (lookup v2var_y1 v) (\<lambda>a.
     bind_err (lookup v2var_y2 v) (\<lambda>b.
     bind_err (func_get_slot_by_idx (py_int (var_x m a)) (py_int (var_x m b)))
       (\<lambda>selected_slot. Inr (AList.update v selected_slot next_v2s))))"

definition u_get_results ::
  "solved \<Rightarrow> 'v list \<Rightarrow> (int \<Rightarrow> int \<Rightarrow> error + 's) \<Rightarrow> ('v \<times> nat) list \<Rightarrow> ('v \<times> nat) list \<Rightarrow>
     error + ('v \<times> 's) list" where
  "u_get_results m v_list func_get_slot_by_idx v2var_y1 v2var_y2 =
     (if status m = OPTIMAL \<or> status m = FEASIBLE then
        for_each v_list (select_slot m func_get_slot_by_idx v2var_y1 v2var_y2) []
      else Inr [])"

subsection \<open>The four-way partition and its retry loop\<close>

text \<open>
  \<^verbatim>\<open>_four_way_partition\<close>. The three width limits are its last parameters, each with the
  default 12000.
\<close>

definition add_constraints ::
  "('v, 's, 'm) env \<Rightarrow> Model \<Rightarrow> 'v list \<Rightarrow> ('v \<times> nat) list \<Rightarrow> ('v \<times> nat) list \<Rightarrow>
     (int \<Rightarrow> int \<Rightarrow> error + 's) \<Rightarrow> 'v list list \<Rightarrow> ('v \<times> 's) list \<Rightarrow> rat \<Rightarrow>
     rat \<Rightarrow> rat \<Rightarrow> rat \<Rightarrow> error + Model" where
  "add_constraints env m v_list v2var_y1 v2var_y2 func_get_slot_by_idx grouping_constraints
     pre_assignments max_usage_ratio slr_0_1_width_limit slr_1_2_width_limit slr_2_3_width_limit =
     bind_err (u_get_slot_to_idx func_get_slot_by_idx) (\<lambda>slot_to_idx.
     bind_err (u_add_area_constraints env m v_list v2var_y1 v2var_y2 func_get_slot_by_idx
                 max_usage_ratio) (\<lambda>m.
     bind_err (u_add_slr_0_1_crossing_constraint env m v_list v2var_y1 v2var_y2
                 slr_0_1_width_limit) (\<lambda>m.
     bind_err (u_add_slr_1_2_crossing_constraint env m v_list v2var_y1
                 slr_1_2_width_limit) (\<lambda>m.
     bind_err (u_add_slr_2_3_crossing_constraint env m v_list v2var_y1 v2var_y2
                 slr_2_3_width_limit) (\<lambda>m.
     bind_err (u_add_pre_assignment env m v_list slot_to_idx pre_assignments
                 v2var_y1 v2var_y2) (\<lambda>m.
     bind_err (u_add_grouping_constraints m grouping_constraints v2var_y1 v2var_y2) (\<lambda>m.
     u_add_opt_goal env m v_list v2var_y1 v2var_y2)))))))"

text \<open>
  \<^verbatim>\<open>_four_way_partition\<close>: the variables, the constraints (\<open>add_constraints\<close> is the
  source's lines from \<^verbatim>\<open>slot_to_idx = ...\<close> to \<^verbatim>\<open>_add_opt_goal(...)\<close>), the solver, the
  results.
\<close>

definition u_four_way_partition ::
  "('v, 's, 'm) env \<Rightarrow> ('v \<times> 's) list \<Rightarrow> 'v list list \<Rightarrow> ('v \<times> 's) list \<Rightarrow> 'm \<Rightarrow> rat \<Rightarrow>
     rat \<Rightarrow> rat \<Rightarrow> rat \<Rightarrow> rat \<Rightarrow> error + ('v \<times> 's) list" where
  "u_four_way_partition env init_v2s grouping_constraints pre_assignments slot_manager
     max_usage_ratio max_search_time slr_0_1_width_limit slr_1_2_width_limit slr_2_3_width_limit =
     (let v_list = map fst init_v2s;
          (v2var_y1, v2var_y2, m) = add_y_vars env v_list ([], [], Model_init);
          func_get_slot_by_idx = u_get_slot_by_idx_closure env slot_manager
      in bind_err (add_constraints env m v_list v2var_y1 v2var_y2 func_get_slot_by_idx
                     grouping_constraints pre_assignments max_usage_ratio
                     slr_0_1_width_limit slr_1_2_width_limit slr_2_3_width_limit)
           (\<lambda>m. u_get_results (optimize env m max_search_time) v_list func_get_slot_by_idx
                   v2var_y1 v2var_y2))"

text \<open>
  \<^verbatim>\<open>four_way_partition\<close>: the retry loop. It calls \<^verbatim>\<open>_four_way_partition\<close> with six
  arguments, so the three width limits take their default 12000. The loop has no bound
  of its own: not returning is the value \<open>None\<close>.
\<close>

partial_function (option) four_way_partition_loop ::
  "('v, 's, 'm) env \<Rightarrow> ('v \<times> 's) list \<Rightarrow> 'v list list \<Rightarrow> ('v \<times> 's) list \<Rightarrow> 'm \<Rightarrow> rat \<Rightarrow>
     rat \<Rightarrow> rat \<Rightarrow> rat \<Rightarrow> (error + ('v \<times> 's) list) option" where
  "four_way_partition_loop env init_v2s grouping_constraints pre_assignments slot_manager
     max_search_time max_usage_ratio_delta hard_limit_max_usage curr_max_usage =
     (case u_four_way_partition env init_v2s grouping_constraints pre_assignments slot_manager
             curr_max_usage max_search_time 12000 12000 12000 of
        Inl e \<Rightarrow> Some (Inl e)
      | Inr v2s \<Rightarrow>
          if v2s = [] then
            (let curr_max_usage = py_round (curr_max_usage + max_usage_ratio_delta) 2
             in if curr_max_usage \<ge> hard_limit_max_usage then Some (Inr [])
                else four_way_partition_loop env init_v2s grouping_constraints pre_assignments
                       slot_manager max_search_time max_usage_ratio_delta hard_limit_max_usage
                       curr_max_usage)
          else Some (Inr v2s))"

definition four_way_partition ::
  "('v, 's, 'm) env \<Rightarrow> ('v \<times> 's) list \<Rightarrow> 'm \<Rightarrow> 'v list list \<Rightarrow> ('v \<times> 's) list \<Rightarrow> rat \<Rightarrow>
     rat \<Rightarrow> rat \<Rightarrow> rat \<Rightarrow> (error + ('v \<times> 's) list) option" where
  "four_way_partition env init_v2s slot_manager grouping_constraints pre_assignments
     ref_usage_ratio max_search_time max_usage_ratio_delta hard_limit_max_usage =
     four_way_partition_loop env init_v2s grouping_constraints pre_assignments slot_manager
       max_search_time max_usage_ratio_delta hard_limit_max_usage ref_usage_ratio"

text \<open>The area caps the retry loop tries, in order, starting from \<open>ref_usage_ratio\<close>.\<close>

fun retry_cap :: "rat \<Rightarrow> rat \<Rightarrow> nat \<Rightarrow> rat" where
  "retry_cap ref delta 0 = ref"
| "retry_cap ref delta (Suc k) = py_round (retry_cap ref delta k + delta) 2"

subsection \<open>Calling by position\<close>

text \<open>
  \<^verbatim>\<open>Partition.py\<close> calls its partitioner with positional arguments. Python binds them to
  the parameters of the callee in the callee's order, whatever the caller named them, and
  checks no type: a value of a foreign type raises where the body first uses it.
\<close>

datatype ('v, 's, 'm) pyval =
    PDict "('v \<times> 's) list"
  | PList "'v list list"
  | PSlotManager 'm
  | PNum rat
  | PNone

record ('v, 's, 'm) four_way_partition_params =
  p_init_v2s :: "('v, 's, 'm) pyval"
  p_slot_manager :: "('v, 's, 'm) pyval"
  p_grouping_constraints :: "('v, 's, 'm) pyval"
  p_pre_assignments :: "('v, 's, 'm) pyval"
  p_ref_usage_ratio :: "('v, 's, 'm) pyval"
  p_max_search_time :: "('v, 's, 'm) pyval"
  p_max_usage_ratio_delta :: "('v, 's, 'm) pyval"
  p_hard_limit_max_usage :: "('v, 's, 'm) pyval"

text \<open>
  The signature \<^verbatim>\<open>four_way_partition(init_v2s, slot_manager, grouping_constraints,
  pre_assignments, ref_usage_ratio, max_search_time=600, max_usage_ratio_delta=0.02,
  hard_limit_max_usage=2)\<close>: five to eight positional arguments.
\<close>

fun bind_four_way_partition ::
  "('v, 's, 'm) pyval list \<Rightarrow> error + ('v, 's, 'm) four_way_partition_params" where
  "bind_four_way_partition (a1 # a2 # a3 # a4 # a5 # rest) =
     (if length rest > 3 then Inl TypeError
      else Inr \<lparr>p_init_v2s = a1, p_slot_manager = a2, p_grouping_constraints = a3,
                p_pre_assignments = a4, p_ref_usage_ratio = a5,
                p_max_search_time = (if length rest > 0 then rest ! 0 else PNum 600),
                p_max_usage_ratio_delta = (if length rest > 1 then rest ! 1 else PNum (2 / 100)),
                p_hard_limit_max_usage = (if length rest > 2 then rest ! 2 else PNum 2)\<rparr>)"
| "bind_four_way_partition _ = Inl TypeError"

text \<open>
  The body on the bound parameters. \<^verbatim>\<open>init_v2s.keys()\<close> is the first use of a parameter
  and \<^verbatim>\<open>slot_manager.getLeafSlotsAfterPartition(...)\<close> the second, both in the first
  call of \<^verbatim>\<open>_four_way_partition\<close> and before the model gets any constraint: a value
  without the attribute raises \<^verbatim>\<open>AttributeError\<close> there. The other parameters are used
  later; a foreign value among them is reported as \<^verbatim>\<open>TypeError\<close> without following the
  body up to its use.
\<close>

definition four_way_partition_body ::
  "('v, 's, 'm) env \<Rightarrow> ('v, 's, 'm) four_way_partition_params \<Rightarrow>
     (error + ('v \<times> 's) list) option" where
  "four_way_partition_body env ps =
     (case p_init_v2s ps of
        PDict init_v2s \<Rightarrow>
          (case p_slot_manager ps of
             PSlotManager slot_manager \<Rightarrow>
               (case (p_grouping_constraints ps, p_pre_assignments ps, p_ref_usage_ratio ps,
                      p_max_search_time ps, p_max_usage_ratio_delta ps,
                      p_hard_limit_max_usage ps) of
                  (PList grouping_constraints, PDict pre_assignments, PNum ref_usage_ratio,
                   PNum max_search_time, PNum max_usage_ratio_delta, PNum hard_limit_max_usage) \<Rightarrow>
                    four_way_partition env init_v2s slot_manager grouping_constraints
                      pre_assignments ref_usage_ratio max_search_time max_usage_ratio_delta
                      hard_limit_max_usage
                | _ \<Rightarrow> Some (Inl TypeError))
           | _ \<Rightarrow> Some (Inl AttributeError))
      | _ \<Rightarrow> Some (Inl AttributeError))"

definition call_four_way_partition ::
  "('v, 's, 'm) env \<Rightarrow> ('v, 's, 'm) pyval list \<Rightarrow> (error + ('v \<times> 's) list) option" where
  "call_four_way_partition env args =
     (case bind_four_way_partition args of
        Inl e \<Rightarrow> Some (Inl e)
      | Inr ps \<Rightarrow> four_way_partition_body env ps)"

section \<open>Floorplan/Partition.py\<close>

text \<open>
  A partitioner is any callable: it takes the list of its positional arguments, and it
  may return a mapping, raise, or not return (\<open>None\<close>).
\<close>

type_synonym ('v, 's, 'm) partitioner =
  "('v, 's, 'm) pyval list \<Rightarrow> (error + ('v \<times> 's) list) option"

subsection \<open>The two binary searches\<close>

text \<open>
  The local variables of a search, and the log of the calls of the partitioner made so
  far. The log is not a variable of the program: each entry records the interval before
  the probe, the arguments passed and the mapping returned.
\<close>

record ('v, 's, 'm) probe =
  probe_lo :: rat
  probe_hi :: rat
  probe_cap :: rat
  probe_args :: "('v, 's, 'm) pyval list"
  probe_result :: "('v \<times> 's) list"

record ('v, 's, 'm) search =
  hi :: rat
  lo :: rat
  curr_best_v2s :: "('v \<times> 's) list"
  curr_min :: "rat option"
  probes :: "('v, 's, 'm) probe list"

text \<open>The positional arguments of a probe, as each search writes them.\<close>

definition slr_crossing_args ::
  "('v \<times> 's) list \<Rightarrow> 'v list list \<Rightarrow> ('v \<times> 's) list \<Rightarrow> 'm \<Rightarrow> ('v, 's, 'm) pyval \<Rightarrow> rat \<Rightarrow>
     rat \<Rightarrow> ('v, 's, 'm) pyval list" where
  "slr_crossing_args init_v2s grouping_constraints pre_assignments slot_manager area_limit
     max_search_time curr_slr_limit =
     [PDict init_v2s, PList grouping_constraints, PDict pre_assignments,
      PSlotManager slot_manager, area_limit, PNum curr_slr_limit, PNum max_search_time]"

definition area_args ::
  "('v \<times> 's) list \<Rightarrow> 'v list list \<Rightarrow> ('v \<times> 's) list \<Rightarrow> 'm \<Rightarrow> ('v, 's, 'm) pyval \<Rightarrow> rat \<Rightarrow>
     rat \<Rightarrow> ('v, 's, 'm) pyval list" where
  "area_args init_v2s grouping_constraints pre_assignments slot_manager slr_width_limit
     max_search_time curr_area_limit =
     [PDict init_v2s, PList grouping_constraints, PDict pre_assignments,
      PSlotManager slot_manager, PNum curr_area_limit, slr_width_limit, PNum max_search_time]"

text \<open>
  The body of the \<^verbatim>\<open>while (1)\<close> loop up to the test that leaves it; the two routines
  have the same body, up to the names of the variables and the place of the probed value
  among the arguments (\<open>mk_args\<close>).
\<close>

definition probe_step ::
  "('v, 's, 'm) partitioner \<Rightarrow> (rat \<Rightarrow> ('v, 's, 'm) pyval list) \<Rightarrow> ('v, 's, 'm) search \<Rightarrow>
     (error + ('v, 's, 'm) search) option" where
  "probe_step partitioner mk_args s =
     (let curr_limit = (hi s + lo s) / 2
      in case partitioner (mk_args curr_limit) of
           None \<Rightarrow> None
         | Some (Inl e) \<Rightarrow> Some (Inl e)
         | Some (Inr v2s) \<Rightarrow>
             (let s1 = s\<lparr>probes := probes s @
                          [\<lparr>probe_lo = lo s, probe_hi = hi s, probe_cap = curr_limit,
                            probe_args = mk_args curr_limit, probe_result = v2s\<rparr>]\<rparr>
              in if v2s \<noteq> [] then
                   Some (Inr (s1\<lparr>curr_best_v2s := v2s, curr_min := Some curr_limit,
                                 hi := curr_limit\<rparr>))
                 else Some (Inr (s1\<lparr>lo := curr_limit\<rparr>))))"

function slr_crossing_loop ::
  "('v, 's, 'm) partitioner \<Rightarrow> (rat \<Rightarrow> ('v, 's, 'm) pyval list) \<Rightarrow> ('v, 's, 'm) search \<Rightarrow>
     (error + ('v, 's, 'm) search) option" where
  "slr_crossing_loop partitioner mk_args s =
     (case probe_step partitioner mk_args s of
        None \<Rightarrow> None
      | Some (Inl e) \<Rightarrow> Some (Inl e)
      | Some (Inr s') \<Rightarrow>
          if hi s' - lo s' < 500 then Some (Inr s')
          else slr_crossing_loop partitioner mk_args s')"
  by pat_completeness auto
termination
proof (relation "measure (\<lambda>(partitioner, mk_args, s). nat \<lceil>(hi s - lo s) / 500\<rceil>)")
  show "wf (measure (\<lambda>(partitioner :: ('v, 's, 'm) partitioner, mk_args :: rat \<Rightarrow> ('v, 's, 'm) pyval list,
                       s :: ('v, 's, 'm) search). nat \<lceil>(hi s - lo s) / 500\<rceil>))"
    by simp
next
  fix partitioner :: "('v, 's, 'm) partitioner" and mk_args :: "rat \<Rightarrow> ('v, 's, 'm) pyval list"
    and s s' :: "('v, 's, 'm) search" and r
  assume step: "probe_step partitioner mk_args s = Some r" "r = Inr s'"
    and big: "\<not> hi s' - lo s' < 500"
  from step have half: "hi s' - lo s' = (hi s - lo s) / 2"
    by (auto simp: probe_step_def Let_def field_simps split: option.splits sum.splits if_splits)
  define w where "w = (hi s' - lo s') / 500"
  from big have "1 \<le> w" by (simp add: w_def)
  then have "\<lceil>w\<rceil> + 1 \<le> \<lceil>2 * w\<rceil>"
    by (metis ceiling_add_one ceiling_mono add_le_cancel_left mult_2)
  moreover have "0 < \<lceil>w\<rceil>" using \<open>1 \<le> w\<close> by linarith
  ultimately have less: "nat \<lceil>w\<rceil> < nat \<lceil>2 * w\<rceil>" by linarith
  have "(hi s - lo s) / 500 = 2 * w" using half by (simp add: w_def)
  then have "nat \<lceil>(hi s' - lo s') / 500\<rceil> < nat \<lceil>(hi s - lo s) / 500\<rceil>"
    using less by (simp only: w_def)
  then show "((partitioner, mk_args, s'), (partitioner, mk_args, s))
      \<in> measure (\<lambda>(partitioner, mk_args, s). nat \<lceil>(hi s - lo s) / 500\<rceil>)"
    by simp
qed

function area_loop ::
  "('v, 's, 'm) partitioner \<Rightarrow> (rat \<Rightarrow> ('v, 's, 'm) pyval list) \<Rightarrow> ('v, 's, 'm) search \<Rightarrow>
     (error + ('v, 's, 'm) search) option" where
  "area_loop partitioner mk_args s =
     (case probe_step partitioner mk_args s of
        None \<Rightarrow> None
      | Some (Inl e) \<Rightarrow> Some (Inl e)
      | Some (Inr s') \<Rightarrow>
          if hi s' - lo s' < 1 / 100 then Some (Inr s')
          else area_loop partitioner mk_args s')"
  by pat_completeness auto
termination
proof (relation "measure (\<lambda>(partitioner, mk_args, s). nat \<lceil>(hi s - lo s) * 100\<rceil>)")
  show "wf (measure (\<lambda>(partitioner :: ('v, 's, 'm) partitioner, mk_args :: rat \<Rightarrow> ('v, 's, 'm) pyval list,
                       s :: ('v, 's, 'm) search). nat \<lceil>(hi s - lo s) * 100\<rceil>))"
    by simp
next
  fix partitioner :: "('v, 's, 'm) partitioner" and mk_args :: "rat \<Rightarrow> ('v, 's, 'm) pyval list"
    and s s' :: "('v, 's, 'm) search" and r
  assume step: "probe_step partitioner mk_args s = Some r" "r = Inr s'"
    and big: "\<not> hi s' - lo s' < 1 / 100"
  from step have half: "hi s' - lo s' = (hi s - lo s) / 2"
    by (auto simp: probe_step_def Let_def field_simps split: option.splits sum.splits if_splits)
  define w where "w = (hi s' - lo s') * 100"
  from big have "1 \<le> w" by (simp add: w_def)
  then have "\<lceil>w\<rceil> + 1 \<le> \<lceil>2 * w\<rceil>"
    by (metis ceiling_add_one ceiling_mono add_le_cancel_left mult_2)
  moreover have "0 < \<lceil>w\<rceil>" using \<open>1 \<le> w\<close> by linarith
  ultimately have less: "nat \<lceil>w\<rceil> < nat \<lceil>2 * w\<rceil>" by linarith
  have "(hi s - lo s) * 100 = 2 * w" using half by (simp add: w_def)
  then have "nat \<lceil>(hi s' - lo s') * 100\<rceil> < nat \<lceil>(hi s - lo s) * 100\<rceil>"
    using less by (simp only: w_def)
  then show "((partitioner, mk_args, s'), (partitioner, mk_args, s))
      \<in> measure (\<lambda>(partitioner, mk_args, s). nat \<lceil>(hi s - lo s) * 100\<rceil>)"
    by simp
qed

text \<open>The state a search starts from, after \<^verbatim>\<open>assert lo <= hi\<close>.\<close>

definition search_init :: "rat \<Rightarrow> rat \<Rightarrow> ('v, 's, 'm) search" where
  "search_init min_limit max_limit =
     \<lparr>hi = max_limit, lo = min_limit, curr_best_v2s = [], curr_min = None, probes = []\<rparr>"

definition slr_crossing_search ::
  "('v, 's, 'm) partitioner \<Rightarrow> ('v \<times> 's) list \<Rightarrow> 'm \<Rightarrow> 'v list list \<Rightarrow> ('v \<times> 's) list \<Rightarrow>
     ('v, 's, 'm) pyval \<Rightarrow> rat \<Rightarrow> rat \<Rightarrow> rat \<Rightarrow> (error + ('v, 's, 'm) search) option" where
  "slr_crossing_search partitioner init_v2s slot_manager grouping_constraints pre_assignments
     area_limit min_slr_width_limit max_slr_width_limit max_search_time =
     (if \<not> min_slr_width_limit \<le> max_slr_width_limit then Some (Inl (AssertionError []))
      else slr_crossing_loop partitioner
             (slr_crossing_args init_v2s grouping_constraints pre_assignments slot_manager
                area_limit max_search_time)
             (search_init min_slr_width_limit max_slr_width_limit))"

definition area_search ::
  "('v, 's, 'm) partitioner \<Rightarrow> ('v \<times> 's) list \<Rightarrow> 'm \<Rightarrow> 'v list list \<Rightarrow> ('v \<times> 's) list \<Rightarrow>
     ('v, 's, 'm) pyval \<Rightarrow> rat \<Rightarrow> rat \<Rightarrow> rat \<Rightarrow> (error + ('v, 's, 'm) search) option" where
  "area_search partitioner init_v2s slot_manager grouping_constraints pre_assignments
     slr_width_limit min_area_limit max_area_limit max_search_time =
     (if \<not> min_area_limit \<le> max_area_limit then Some (Inl (AssertionError []))
      else area_loop partitioner
             (area_args init_v2s grouping_constraints pre_assignments slot_manager
                slr_width_limit max_search_time)
             (search_init min_area_limit max_area_limit))"

text \<open>What a routine returns of its final state: \<^verbatim>\<open>return curr_best_v2s, curr_min\<close>.\<close>

definition returned ::
  "(error + ('v, 's, 'm) search) option \<Rightarrow> (error + ('v \<times> 's) list \<times> rat option) option" where
  "returned r =
     (case r of
        None \<Rightarrow> None
      | Some (Inl e) \<Rightarrow> Some (Inl e)
      | Some (Inr s) \<Rightarrow> Some (Inr (curr_best_v2s s, curr_min s)))"

definition u_binary_search_slr_crossing_limit ::
  "('v, 's, 'm) partitioner \<Rightarrow> ('v \<times> 's) list \<Rightarrow> 'm \<Rightarrow> 'v list list \<Rightarrow> ('v \<times> 's) list \<Rightarrow>
     ('v, 's, 'm) pyval \<Rightarrow> rat \<Rightarrow> rat \<Rightarrow> rat \<Rightarrow> (error + ('v \<times> 's) list \<times> rat option) option" where
  "u_binary_search_slr_crossing_limit partitioner init_v2s slot_manager grouping_constraints
     pre_assignments area_limit min_slr_width_limit max_slr_width_limit max_search_time =
     returned (slr_crossing_search partitioner init_v2s slot_manager grouping_constraints
                 pre_assignments area_limit min_slr_width_limit max_slr_width_limit
                 max_search_time)"

definition u_binary_search_area_limit ::
  "('v, 's, 'm) partitioner \<Rightarrow> ('v \<times> 's) list \<Rightarrow> 'm \<Rightarrow> 'v list list \<Rightarrow> ('v \<times> 's) list \<Rightarrow>
     ('v, 's, 'm) pyval \<Rightarrow> rat \<Rightarrow> rat \<Rightarrow> rat \<Rightarrow> (error + ('v \<times> 's) list \<times> rat option) option" where
  "u_binary_search_area_limit partitioner init_v2s slot_manager grouping_constraints
     pre_assignments slr_width_limit min_area_limit max_area_limit max_search_time =
     returned (area_search partitioner init_v2s slot_manager grouping_constraints
                 pre_assignments slr_width_limit min_area_limit max_area_limit max_search_time)"

subsection \<open>The two strategies and the entry point\<close>

text \<open>A cap found by a search is a number or \<^verbatim>\<open>None\<close>; it is passed on as it is.\<close>

definition num_or_none :: "rat option \<Rightarrow> ('v, 's, 'm) pyval" where
  "num_or_none c = (case c of None \<Rightarrow> PNone | Some q \<Rightarrow> PNum q)"

definition partition_area_prioritized ::
  "('v, 's, 'm) partitioner \<Rightarrow> ('v \<times> 's) list \<Rightarrow> 'm \<Rightarrow> 'v list list \<Rightarrow> ('v \<times> 's) list \<Rightarrow>
     rat \<Rightarrow> rat \<Rightarrow> rat \<Rightarrow> rat \<Rightarrow> rat \<Rightarrow> (error + ('v \<times> 's) list) option" where
  "partition_area_prioritized partitioner init_v2s slot_manager grouping_constraints
     pre_assignments min_area_limit max_area_limit min_slr_width_limit max_slr_width_limit
     max_search_time =
     (case u_binary_search_area_limit partitioner init_v2s slot_manager grouping_constraints
             pre_assignments (PNum max_slr_width_limit) min_area_limit max_area_limit
             max_search_time of
        None \<Rightarrow> None
      | Some (Inl e) \<Rightarrow> Some (Inl e)
      | Some (Inr (curr_v2s, curr_area_limit)) \<Rightarrow>
          if curr_v2s = [] then Some (Inr [])
          else
            (case u_binary_search_slr_crossing_limit partitioner init_v2s slot_manager
                    grouping_constraints pre_assignments (num_or_none curr_area_limit)
                    min_slr_width_limit max_slr_width_limit max_search_time of
               None \<Rightarrow> None
             | Some (Inl e) \<Rightarrow> Some (Inl e)
             | Some (Inr (best_v2s, curr_slr_limit)) \<Rightarrow>
                 if best_v2s = [] then Some (Inr curr_v2s) else Some (Inr best_v2s)))"

definition partition_slr_crossing_prioritized ::
  "('v, 's, 'm) partitioner \<Rightarrow> ('v \<times> 's) list \<Rightarrow> 'm \<Rightarrow> 'v list list \<Rightarrow> ('v \<times> 's) list \<Rightarrow>
     rat \<Rightarrow> rat \<Rightarrow> rat \<Rightarrow> rat \<Rightarrow> rat \<Rightarrow> (error + ('v \<times> 's) list) option" where
  "partition_slr_crossing_prioritized partitioner init_v2s slot_manager grouping_constraints
     pre_assignments min_area_limit max_area_limit min_slr_width_limit max_slr_width_limit
     max_search_time =
     (case u_binary_search_slr_crossing_limit partitioner init_v2s slot_manager
             grouping_constraints pre_assignments (PNum max_area_limit) min_slr_width_limit
             max_slr_width_limit max_search_time of
        None \<Rightarrow> None
      | Some (Inl e) \<Rightarrow> Some (Inl e)
      | Some (Inr (curr_v2s, curr_slr_limit)) \<Rightarrow>
          if curr_v2s = [] then Some (Inr [])
          else
            (case u_binary_search_area_limit partitioner init_v2s slot_manager
                    grouping_constraints pre_assignments (num_or_none curr_slr_limit)
                    min_area_limit max_area_limit max_search_time of
               None \<Rightarrow> None
             | Some (Inl e) \<Rightarrow> Some (Inl e)
             | Some (Inr (best_v2s, curr_area_limit)) \<Rightarrow>
                 if best_v2s = [] then Some (Inr curr_v2s) else Some (Inr best_v2s)))"

text \<open>
  \<^verbatim>\<open>partition\<close>. \<^verbatim>\<open>eight_way_partition\<close> is not part of these sources and is a parameter;
  \<^verbatim>\<open>four_way_partition\<close> is the function above, called by position.
\<close>

definition partition ::
  "('v, 's, 'm) env \<Rightarrow> ('v, 's, 'm) partitioner \<Rightarrow> ('v \<times> 's) list \<Rightarrow> 'm \<Rightarrow> 'v list list \<Rightarrow>
     ('v \<times> 's) list \<Rightarrow> rat \<Rightarrow> rat \<Rightarrow> rat \<Rightarrow> rat \<Rightarrow> rat \<Rightarrow> string \<Rightarrow> string \<Rightarrow>
     (error + ('v \<times> 's) list) option" where
  "partition env eight_way_partition init_v2s slot_manager grouping_constraints pre_assignments
     min_area_limit max_area_limit min_slr_width_limit max_slr_width_limit max_search_time
     partition_method floorplan_opt_priority =
     (if partition_method \<noteq> ''EIGHT_WAY_PARTITION'' \<and> partition_method \<noteq> ''FOUR_WAY_PARTITION''
      then Some (Inl (NotImplementedError ''unrecognized floorplan method: %s''))
      else
        (let partitioner =
               (if partition_method = ''EIGHT_WAY_PARTITION'' then eight_way_partition
                else call_four_way_partition env)
         in if floorplan_opt_priority = ''AREA_PRIORITIZED'' then
              partition_area_prioritized partitioner init_v2s slot_manager grouping_constraints
                pre_assignments min_area_limit max_area_limit min_slr_width_limit
                max_slr_width_limit max_search_time
            else if floorplan_opt_priority = ''SLR_CROSSING_PRIORITIZED'' then
              partition_slr_crossing_prioritized partitioner init_v2s slot_manager
                grouping_constraints pre_assignments min_area_limit max_area_limit
                min_slr_width_limit max_slr_width_limit max_search_time
            else Some (Inl (NotImplementedError ''unrecognized floorplan_opt_priority: %s''))))"

subsection \<open>The log of a search\<close>

text \<open>
  \<open>probe_made\<close>: a log entry for the interval \<open>(l, h)\<close> records a call of the partitioner
  at the midpoint. \<open>probe_log_ok\<close>: the log of a whole search that starts with the interval
  \<open>(l, h)\<close> and stops at the threshold \<open>thr\<close>; a successful probe moves \<open>h\<close> to the
  midpoint and a failed one moves \<open>l\<close>; the log ends exactly at the first probe after which
  \<open>h - l < thr\<close>, and it has at least one entry. \<open>last_success\<close>: the last entry whose
  mapping is not empty.
\<close>

definition probe_made ::
  "('v, 's, 'm) partitioner \<Rightarrow> (rat \<Rightarrow> ('v, 's, 'm) pyval list) \<Rightarrow> rat \<Rightarrow> rat \<Rightarrow>
     ('v, 's, 'm) probe \<Rightarrow> bool" where
  "probe_made partitioner mk_args l h p =
     (probe_lo p = l \<and> probe_hi p = h \<and> probe_cap p = (h + l) / 2 \<and>
      probe_args p = mk_args (probe_cap p) \<and>
      partitioner (probe_args p) = Some (Inr (probe_result p)))"

fun probe_log_ok ::
  "('v, 's, 'm) partitioner \<Rightarrow> (rat \<Rightarrow> ('v, 's, 'm) pyval list) \<Rightarrow> rat \<Rightarrow> rat \<Rightarrow> rat \<Rightarrow>
     ('v, 's, 'm) probe list \<Rightarrow> bool" where
  "probe_log_ok partitioner mk_args thr l h [] = False"
| "probe_log_ok partitioner mk_args thr l h (p # ps) =
     (probe_made partitioner mk_args l h p \<and>
      (let l' = (if probe_result p \<noteq> [] then l else probe_cap p);
           h' = (if probe_result p \<noteq> [] then probe_cap p else h)
       in if h' - l' < thr then ps = [] else probe_log_ok partitioner mk_args thr l' h' ps))"

fun last_success :: "('v, 's, 'm) probe list \<Rightarrow> ('v, 's, 'm) probe option" where
  "last_success [] = None"
| "last_success (p # ps) =
     (case last_success ps of
        Some q \<Rightarrow> Some q
      | None \<Rightarrow> if probe_result p \<noteq> [] then Some p else None)"

definition loop_post ::
  "('v, 's, 'm) partitioner \<Rightarrow> (rat \<Rightarrow> ('v, 's, 'm) pyval list) \<Rightarrow> rat \<Rightarrow>
   ('v, 's, 'm) search \<Rightarrow> ('v, 's, 'm) search \<Rightarrow> bool" where
  "loop_post P mk thr s s' = (\<exists>ps. probes s' = probes s @ ps \<and> probe_log_ok P mk thr (lo s) (hi s) ps \<and>
     hi s' - lo s' < thr \<and>
     curr_best_v2s s' = (case last_success ps of None \<Rightarrow> curr_best_v2s s | Some q \<Rightarrow> probe_result q) \<and>
     curr_min s' = (case last_success ps of None \<Rightarrow> curr_min s | Some q \<Rightarrow> Some (probe_cap q)))"

text \<open>
  A partitioner for the examples: it succeeds, with one fixed mapping, when the area cap
  (fifth argument) is at least 7/10 and the crossing cap (sixth argument) at least \<open>cmin\<close>.
\<close>

definition part_ex :: "rat \<Rightarrow> (nat, nat, nat) partitioner" where
  "part_ex cmin args =
     (case args ! 4 of
        PNum a \<Rightarrow>
          (case args ! 5 of
             PNum c \<Rightarrow> Some (Inr (if 7 / 10 \<le> a \<and> cmin \<le> c then [(0, 0)] else []))
           | _ \<Rightarrow> Some (Inl TypeError))
      | _ \<Rightarrow> Some (Inl TypeError))"

subsection \<open>The model handed to the solver\<close>

text \<open>
  The coordinate variables of the vertices, and the model as \<^verbatim>\<open>_four_way_partition\<close> has
  built it when it calls \<^verbatim>\<open>m.optimize\<close>.
\<close>

definition y_vars :: "('v, 's, 'm) env \<Rightarrow> 'v list \<Rightarrow> ('v \<times> nat) list \<times> ('v \<times> nat) list" where
  "y_vars env v_list =
     (let (v2var_y1, v2var_y2, m) = add_y_vars env v_list ([], [], Model_init)
      in (v2var_y1, v2var_y2))"

definition four_way_model ::
  "('v, 's, 'm) env \<Rightarrow> ('v \<times> 's) list \<Rightarrow> 'v list list \<Rightarrow> ('v \<times> 's) list \<Rightarrow> 'm \<Rightarrow> rat \<Rightarrow>
     rat \<Rightarrow> rat \<Rightarrow> rat \<Rightarrow> error + Model" where
  "four_way_model env init_v2s grouping_constraints pre_assignments slot_manager max_usage_ratio
     slr_0_1_width_limit slr_1_2_width_limit slr_2_3_width_limit =
     (let v_list = map fst init_v2s;
          (v2var_y1, v2var_y2, m) = add_y_vars env v_list ([], [], Model_init)
      in add_constraints env m v_list v2var_y1 v2var_y2
           (u_get_slot_by_idx_closure env slot_manager) grouping_constraints pre_assignments
           max_usage_ratio slr_0_1_width_limit slr_1_2_width_limit slr_2_3_width_limit)"

subsection \<open>The indicator variables of the area constraints\<close>

text \<open>
  \<^verbatim>\<open>_add_area_constraints\<close> adds its indicator variables in the order of its loops: for the
  resource number \<open>i\<close> and the leaf number \<open>k\<close> (the position of \<open>(y1, y2)\<close> in
  \<^verbatim>\<open>product(range(2), range(2))\<close>), one variable per vertex, after the variables that the
  model \<open>m\<close> had before the call. \<open>indicator m v_list i k j\<close> is the variable of the vertex
  number \<open>j\<close>.
\<close>

definition indicator :: "Model \<Rightarrow> 'v list \<Rightarrow> nat \<Rightarrow> nat \<Rightarrow> nat \<Rightarrow> nat" where
  "indicator m v_list i k j = length (vars m) + (4 * i + k) * length v_list + j"

subsection \<open>The outcome of the retry loop\<close>

text \<open>
  \<open>retry_outcome \<dots> ref k r\<close>: with the default increment 0.02 and the default hard limit
  2, the retry loop started at \<open>ref\<close> makes the calls number \<open>0\<close> to \<open>k\<close> of
  \<^verbatim>\<open>_four_way_partition\<close>, at the caps \<open>retry_cap ref (1 / 50) j\<close>; the calls before the
  last return the empty mapping and leave the next cap below 2; the last call either
  raises (and \<open>r\<close> is that exception), or returns a non-empty mapping (and \<open>r\<close> is that
  mapping), or returns the empty mapping with the next cap at or above 2 (and \<open>r\<close> is the
  empty mapping).
\<close>

definition retry_outcome ::
  "('v, 's, 'm) env \<Rightarrow> ('v \<times> 's) list \<Rightarrow> 'v list list \<Rightarrow> ('v \<times> 's) list \<Rightarrow> 'm \<Rightarrow> rat \<Rightarrow>
     rat \<Rightarrow> nat \<Rightarrow> (error + ('v \<times> 's) list) option \<Rightarrow> bool" where
  "retry_outcome env init_v2s gc pa sm t ref k r =
     ((\<forall>j<k. u_four_way_partition env init_v2s gc pa sm (retry_cap ref (1 / 50) j) t
                12000 12000 12000 = Inr [] \<and>
             retry_cap ref (1 / 50) (Suc j) < 2) \<and>
      (case u_four_way_partition env init_v2s gc pa sm (retry_cap ref (1 / 50) k) t
              12000 12000 12000 of
         Inl e \<Rightarrow> r = Some (Inl e)
       | Inr v2s \<Rightarrow>
           if v2s \<noteq> [] then r = Some (Inr v2s)
           else 2 \<le> retry_cap ref (1 / 50) (Suc k) \<and> r = Some (Inr [])))"

subsection \<open>A small floorplanning problem\<close>

text \<open>
  Two vertices \<open>A = 0\<close> and \<open>B = 1\<close> with no edges, of area 40 and 36 in the one resource
  \<^verbatim>\<open>LUT\<close>; four leaf slots \<open>0\<close> to \<open>3\<close> of capacity 100; a slot contains only itself, so the
  slot \<open>9\<close> is in no leaf. The variables of the model are \<open>y1_A, y2_A, y1_B, y2_B\<close> (0 to
  3) and then the indicators of the four leaves, two each. The solver tries the one
  assignment \<open>sol_ex\<close> that puts both vertices on leaf 0: it reports \<^verbatim>\<open>OPTIMAL\<close> with it
  when it satisfies the model, and \<^verbatim>\<open>INFEASIBLE\<close> otherwise.
\<close>

definition sol_ex :: "nat \<Rightarrow> rat" where
  "sol_ex i = (if i = 4 \<or> i = 5 then 1 else 0)"

definition env_ex :: "(nat, nat, nat) env" where
  "env_ex =
     \<lparr>RESOURCE_TYPES = [''LUT''],
      vertex_name = (\<lambda>v. if v = 0 then ''A'' else ''B''),
      getVertexAndInboundFIFOArea = (\<lambda>v r. if v = 0 then 40 else 36),
      get_all_edges = (\<lambda>vs. []),
      getArea = (\<lambda>s r. 100),
      containsChildSlot = (\<lambda>a b. a = b),
      getLeafSlotsAfterPartition = (\<lambda>m order. [0, 1, 2, 3]),
      optimize = (\<lambda>m t. if satisfies sol_ex m then \<lparr>status = OPTIMAL, var_x = sol_ex\<rparr>
                          else \<lparr>status = INFEASIBLE, var_x = (\<lambda>_. 0)\<rparr>)\<rparr>"

definition init_ex :: "(nat \<times> nat) list" where
  "init_ex = [(0, 7), (1, 7)]"

section \<open>Properties of graph.py\<close>

lemmas graph_ops = set_dst_def set_src_def call_add_in_def call_add_out_def add_in_def add_out_def

lemma initEdges_port_registered:
  "edge_registered g e \<Longrightarrow> initEdges_port g e p = Inr g' \<Longrightarrow> edge_registered g' e"
  by (auto simp: edge_registered_def initEdges_port_def graph_ops Let_def
      split: argexpr.splits option.splits if_splits)

lemma initEdges_ports_registered:
  "edge_registered g e \<Longrightarrow> initEdges_ports g e ps = Inr g' \<Longrightarrow> edge_registered g' e"
proof (induction ps arbitrary: g)
  case Nil
  then show ?case by simp
next
  case (Cons p ps)
  then show ?case
    by (auto split: sum.splits dest: initEdges_port_registered)
qed

lemma initEdges_port_dst_kept:
  "initEdges_port g e p = Inr g' \<Longrightarrow> dst (edge_store g e) \<noteq> None \<or> is_dout_port p \<Longrightarrow>
     dst (edge_store g' e) \<noteq> None"
  by (auto simp: initEdges_port_def is_dout_port_def graph_ops Let_def
      split: argexpr.splits option.splits if_splits)

lemma initEdges_port_src_kept:
  "initEdges_port g e p = Inr g' \<Longrightarrow> src (edge_store g e) \<noteq> None \<or> is_din_port p \<Longrightarrow>
     src (edge_store g' e) \<noteq> None"
  by (auto simp: initEdges_port_def is_din_port_def graph_ops Let_def
      split: argexpr.splits option.splits if_splits)

lemma initEdges_ports_dst:
  "initEdges_ports g e ps = Inr g' \<Longrightarrow>
     dst (edge_store g e) \<noteq> None \<or> (\<exists>p\<in>set ps. is_dout_port p) \<Longrightarrow>
     dst (edge_store g' e) \<noteq> None"
proof (induction ps arbitrary: g)
  case Nil
  then show ?case by simp
next
  case (Cons p ps)
  from Cons.prems(1) obtain g1 where p1: "initEdges_port g e p = Inr g1"
    and rest: "initEdges_ports g1 e ps = Inr g'"
    by (auto split: sum.splits)
  from Cons.prems(2)
  have "(dst (edge_store g e) \<noteq> None \<or> is_dout_port p) \<or> (\<exists>q\<in>set ps. is_dout_port q)"
    by auto
  then show ?case
  proof
    assume "dst (edge_store g e) \<noteq> None \<or> is_dout_port p"
    with p1 have "dst (edge_store g1 e) \<noteq> None" by (rule initEdges_port_dst_kept)
    with rest show ?thesis using Cons.IH by blast
  next
    assume "\<exists>q\<in>set ps. is_dout_port q"
    with rest show ?thesis using Cons.IH by blast
  qed
qed

lemma initEdges_ports_src:
  "initEdges_ports g e ps = Inr g' \<Longrightarrow>
     src (edge_store g e) \<noteq> None \<or> (\<exists>p\<in>set ps. is_din_port p) \<Longrightarrow>
     src (edge_store g' e) \<noteq> None"
proof (induction ps arbitrary: g)
  case Nil
  then show ?case by simp
next
  case (Cons p ps)
  from Cons.prems(1) obtain g1 where p1: "initEdges_port g e p = Inr g1"
    and rest: "initEdges_ports g1 e ps = Inr g'"
    by (auto split: sum.splits)
  from Cons.prems(2)
  have "(src (edge_store g e) \<noteq> None \<or> is_din_port p) \<or> (\<exists>q\<in>set ps. is_din_port q)"
    by auto
  then show ?case
  proof
    assume "src (edge_store g e) \<noteq> None \<or> is_din_port p"
    with p1 have "src (edge_store g1 e) \<noteq> None" by (rule initEdges_port_src_kept)
    with rest show ?thesis using Cons.IH by blast
  next
    assume "\<exists>q\<in>set ps. is_din_port q"
    with rest show ?thesis using Cons.IH by blast
  qed
qed

lemma initEdges_result:
  assumes "isValidInstance fm nd" "isFIFO fm nd" "initEdges fm g nd = Inr g'"
  shows "\<exists>g0 g1.
    dst (edge_store g0 (next_edge g)) = None \<and> src (edge_store g0 (next_edge g)) = None \<and>
    initEdges_ports g0 (next_edge g) (portlist nd) = Inr g1 \<and>
    g' = g1\<lparr>edges := AList.update (n_name nd) (next_edge g) (edges g1)\<rparr>"
proof -
  from assms obtain aw where aw: "addr_width_of (extractFIFODepth fm nd) = Inr aw"
    by (auto simp: initEdges_def Let_def split: sum.splits)
  define g0 where "g0 = g\<lparr>edge_store := (edge_store g)
      (next_edge g := (Edge_init (n_name nd))\<lparr>width := extractFIFOWidth fm nd,
         depth := extractFIFODepth fm nd, addr_width := aw\<rparr>), next_edge := Suc (next_edge g)\<rparr>"
  from assms aw obtain g1 where g1: "initEdges_ports g0 (next_edge g) (portlist nd) = Inr g1"
    and g': "g' = g1\<lparr>edges := AList.update (n_name nd) (next_edge g) (edges g1)\<rparr>"
    by (auto simp: initEdges_def Let_def g0_def split: sum.splits)
  have "dst (edge_store g0 (next_edge g)) = None" "src (edge_store g0 (next_edge g)) = None"
    by (simp_all add: g0_def Edge_init_def)
  with g1 g' show ?thesis by blast
qed

lemma sublist_ex:
  "sublist ''_dout'' ''f_dout''" "sublist ''_dout'' ''if_dout''"
  "sublist ''_din'' ''f_din''" "sublist ''_din'' ''if_din''"
  "\<not> sublist ''_dout'' ''f_din''"
  by code_simp+

lemma initEdges_ex:
  "\<exists>g'. initEdges fm_ex g_ex nd_ex = Inr g' \<and>
        dst (edge_store g' 0) = Some 1 \<and> src (edge_store g' 0) = Some 0"
  by (simp add: initEdges_def fm_ex_def g_ex_def nd_ex_def addr_width_of_def compute_floorlog
      Let_def initEdges_port_def sublist_ex graph_ops Edge_init_def Vertex_init_def)

text \<open>
  C9. \<^verbatim>\<open>Vertex.add_in(e)\<close> appends \<open>e\<close> to \<open>out_edges\<close> and leaves \<open>in_edges\<close> as it is;
  \<^verbatim>\<open>Vertex.add_out(e)\<close> appends \<open>e\<close> to \<open>in_edges\<close> and leaves \<open>out_edges\<close> as it is.
  Consequently, when \<^verbatim>\<open>Graph.initEdges\<close> has processed a FIFO instance, the new edge (at
  the address \<open>next_edge g\<close>, stored in \<^verbatim>\<open>self.edges\<close> under the instance name) is in the
  \<open>out_edges\<close> of its destination vertex and in the \<open>in_edges\<close> of its source vertex; a
  \<^verbatim>\<open>_dout\<close> port gives it a destination and a \<^verbatim>\<open>_din\<close> port a source.
\<close>

theorem add_in_add_out_initEdges:
  "out_edges (add_in v e) = out_edges v @ [e] \<and> in_edges (add_in v e) = in_edges v \<and>
   in_edges (add_out v e) = in_edges v @ [e] \<and> out_edges (add_out v e) = out_edges v \<and>
   (isValidInstance fm nd \<and> isFIFO fm nd \<and> initEdges fm g nd = Inr g' \<longrightarrow>
      map_of (edges g') (n_name nd) = Some (next_edge g) \<and>
      (\<forall>d. dst (edge_store g' (next_edge g)) = Some d \<longrightarrow>
           next_edge g \<in> set (out_edges (vertex_store g' d))) \<and>
      (\<forall>s. src (edge_store g' (next_edge g)) = Some s \<longrightarrow>
           next_edge g \<in> set (in_edges (vertex_store g' s))) \<and>
      ((\<exists>p\<in>set (portlist nd). is_dout_port p) \<longrightarrow> dst (edge_store g' (next_edge g)) \<noteq> None) \<and>
      ((\<exists>p\<in>set (portlist nd). is_din_port p) \<longrightarrow> src (edge_store g' (next_edge g)) \<noteq> None))"
proof -
  have methods:
    "out_edges (add_in v e) = out_edges v @ [e] \<and> in_edges (add_in v e) = in_edges v \<and>
     in_edges (add_out v e) = in_edges v @ [e] \<and> out_edges (add_out v e) = out_edges v"
    by (simp add: add_in_def add_out_def)
  have run: "map_of (edges g') (n_name nd) = Some (next_edge g) \<and>
      (\<forall>d. dst (edge_store g' (next_edge g)) = Some d \<longrightarrow>
           next_edge g \<in> set (out_edges (vertex_store g' d))) \<and>
      (\<forall>s. src (edge_store g' (next_edge g)) = Some s \<longrightarrow>
           next_edge g \<in> set (in_edges (vertex_store g' s))) \<and>
      ((\<exists>p\<in>set (portlist nd). is_dout_port p) \<longrightarrow> dst (edge_store g' (next_edge g)) \<noteq> None) \<and>
      ((\<exists>p\<in>set (portlist nd). is_din_port p) \<longrightarrow> src (edge_store g' (next_edge g)) \<noteq> None)"
    if a: "isValidInstance fm nd" "isFIFO fm nd" "initEdges fm g nd = Inr g'"
  proof -
    from a obtain g0 g1 where
      d0: "dst (edge_store g0 (next_edge g)) = None"
      and s0: "src (edge_store g0 (next_edge g)) = None"
      and ports: "initEdges_ports g0 (next_edge g) (portlist nd) = Inr g1"
      and g': "g' = g1\<lparr>edges := AList.update (n_name nd) (next_edge g) (edges g1)\<rparr>"
      using initEdges_result by blast
    from d0 s0 have "edge_registered g0 (next_edge g)" by (simp add: edge_registered_def)
    with ports have reg: "edge_registered g1 (next_edge g)"
      by (rule initEdges_ports_registered[rotated])
    have look: "map_of (edges g') (n_name nd) = Some (next_edge g)"
      by (simp add: g' update_conv')
    from reg have r1: "\<forall>d. dst (edge_store g' (next_edge g)) = Some d \<longrightarrow>
           next_edge g \<in> set (out_edges (vertex_store g' d))"
      by (auto simp: edge_registered_def g' split: option.splits)
    from reg have r2: "\<forall>s. src (edge_store g' (next_edge g)) = Some s \<longrightarrow>
           next_edge g \<in> set (in_edges (vertex_store g' s))"
      by (auto simp: edge_registered_def g' split: option.splits)
    have r3: "(\<exists>p\<in>set (portlist nd). is_dout_port p) \<longrightarrow>
        dst (edge_store g' (next_edge g)) \<noteq> None"
      using initEdges_ports_dst[OF ports] by (simp add: g')
    have r4: "(\<exists>p\<in>set (portlist nd). is_din_port p) \<longrightarrow>
        src (edge_store g' (next_edge g)) \<noteq> None"
      using initEdges_ports_src[OF ports] by (simp add: g')
    from look r1 r2 r3 r4 show ?thesis by blast
  qed
  from methods run show ?thesis by blast
qed

theorem add_in_add_out_initEdges_witness:
  "isValidInstance fm_ex nd_ex \<and> isFIFO fm_ex nd_ex \<and>
   (\<exists>g'. initEdges fm_ex g_ex nd_ex = Inr g' \<and>
      map_of (edges g') ''f'' = Some 0 \<and>
      dst (edge_store g' 0) = Some 1 \<and> 0 \<in> set (out_edges (vertex_store g' 1)) \<and>
      src (edge_store g' 0) = Some 0 \<and> 0 \<in> set (in_edges (vertex_store g' 0)))"
proof -
  have valid: "isValidInstance fm_ex nd_ex" "isFIFO fm_ex nd_ex"
    by (simp_all add: fm_ex_def)
  from initEdges_ex obtain g' where run: "initEdges fm_ex g_ex nd_ex = Inr g'"
    and d: "dst (edge_store g' 0) = Some 1" and s: "src (edge_store g' 0) = Some 0"
    by blast
  have n: "next_edge g_ex = 0" "n_name nd_ex = ''f''"
    by (simp_all add: g_ex_def nd_ex_def)
  from add_in_add_out_initEdges[of _ _ fm_ex nd_ex g_ex g'] valid run d s
  have "map_of (edges g') ''f'' = Some 0 \<and> 0 \<in> set (out_edges (vertex_store g' 1)) \<and>
        0 \<in> set (in_edges (vertex_store g' 0))"
    by (simp add: n)
  with valid run d s show ?thesis by blast
qed

section \<open>Properties of Partition.py\<close>

lemma probe_step_Inr:
  assumes "probe_step P mk s = Some (Inr s')"
  shows "\<exists>p. probe_made P mk (lo s) (hi s) p \<and> probes s' = probes s @ [p] \<and>
     lo s' = (if probe_result p \<noteq> [] then lo s else probe_cap p) \<and>
     hi s' = (if probe_result p \<noteq> [] then probe_cap p else hi s) \<and>
     curr_best_v2s s' = (if probe_result p \<noteq> [] then probe_result p else curr_best_v2s s) \<and>
     curr_min s' = (if probe_result p \<noteq> [] then Some (probe_cap p) else curr_min s)"
proof -
  define mid where "mid = (hi s + lo s) / 2"
  from assms obtain m where pm: "P (mk mid) = Some (Inr m)"
    by (auto simp: probe_step_def mid_def Let_def split: option.splits sum.splits)
  define p where "p = \<lparr>probe_lo = lo s, probe_hi = hi s, probe_cap = mid,
                        probe_args = mk mid, probe_result = m\<rparr>"
  from assms pm have s': "s' = (if m \<noteq> [] then
        s\<lparr>probes := probes s @ [p], curr_best_v2s := m, curr_min := Some mid, hi := mid\<rparr>
      else s\<lparr>probes := probes s @ [p], lo := mid\<rparr>)"
    by (auto simp: probe_step_def mid_def[symmetric] p_def Let_def split: if_splits)
  have "probe_made P mk (lo s) (hi s) p"
    using pm by (simp add: probe_made_def p_def mid_def)
  moreover have "probe_result p = m" "probe_cap p = mid" by (simp_all add: p_def)
  ultimately show ?thesis using s' by (intro exI[of _ p]) simp
qed



lemma loop_post_step:
  assumes st: "probe_step P mk s = Some (Inr s1)"
    and rest: "if hi s1 - lo s1 < thr then s' = s1 else loop_post P mk thr s1 s'"
  shows "loop_post P mk thr s s'"
proof -
  from probe_step_Inr[OF st] obtain p where p: "probe_made P mk (lo s) (hi s) p"
    and pr: "probes s1 = probes s @ [p]"
    and l1: "lo s1 = (if probe_result p \<noteq> [] then lo s else probe_cap p)"
    and h1: "hi s1 = (if probe_result p \<noteq> [] then probe_cap p else hi s)"
    and b1: "curr_best_v2s s1 = (if probe_result p \<noteq> [] then probe_result p else curr_best_v2s s)"
    and c1: "curr_min s1 = (if probe_result p \<noteq> [] then Some (probe_cap p) else curr_min s)"
    by blast
  show ?thesis
  proof (cases "hi s1 - lo s1 < thr")
    case True
    with rest have "s' = s1" by simp
    with True p pr l1 h1 b1 c1 show ?thesis
      unfolding loop_post_def
      by (intro exI[of _ "[p]"]) (simp add: Let_def)
  next
    case False
    with rest obtain ps where ps: "probes s' = probes s1 @ ps"
      and ok: "probe_log_ok P mk thr (lo s1) (hi s1) ps"
      and w: "hi s' - lo s' < thr"
      and b: "curr_best_v2s s' = (case last_success ps of None \<Rightarrow> curr_best_v2s s1 | Some q \<Rightarrow> probe_result q)"
      and c: "curr_min s' = (case last_success ps of None \<Rightarrow> curr_min s1 | Some q \<Rightarrow> Some (probe_cap q))"
      unfolding loop_post_def by auto
    from False p ok l1 h1 have "probe_log_ok P mk thr (lo s) (hi s) (p # ps)"
      by (simp add: Let_def)
    moreover from ps pr have "probes s' = probes s @ (p # ps)" by simp
    moreover from b b1 have "curr_best_v2s s' = (case last_success (p # ps) of None \<Rightarrow> curr_best_v2s s | Some q \<Rightarrow> probe_result q)"
      by (simp split: option.splits)
    moreover from c c1 have "curr_min s' = (case last_success (p # ps) of None \<Rightarrow> curr_min s | Some q \<Rightarrow> Some (probe_cap q))"
      by (simp split: option.splits)
    ultimately show ?thesis using w unfolding loop_post_def by blast
  qed
qed

lemma slr_crossing_loop_post:
  "slr_crossing_loop P mk s = Some (Inr s') \<Longrightarrow> loop_post P mk 500 s s'"
proof (induction P mk s rule: slr_crossing_loop.induct)
  case (1 P mk s)
  from "1.prems" obtain s1 where st: "probe_step P mk s = Some (Inr s1)"
    by (subst (asm) slr_crossing_loop.simps) (auto split: option.splits sum.splits)
  with "1.prems" have r: "(if hi s1 - lo s1 < 500 then Some (Inr s1) else slr_crossing_loop P mk s1) = Some (Inr s')"
    by (subst (asm) slr_crossing_loop.simps) simp
  have "if hi s1 - lo s1 < 500 then s' = s1 else loop_post P mk 500 s1 s'"
  proof (cases "hi s1 - lo s1 < 500")
    case True
    with r show ?thesis by simp
  next
    case False
    with r have "slr_crossing_loop P mk s1 = Some (Inr s')" by simp
    with "1.IH"[OF st refl False] False show ?thesis by simp
  qed
  with st show ?case by (rule loop_post_step)
qed

lemma area_loop_post:
  "area_loop P mk s = Some (Inr s') \<Longrightarrow> loop_post P mk (1 / 100) s s'"
proof (induction P mk s rule: area_loop.induct)
  case (1 P mk s)
  from "1.prems" obtain s1 where st: "probe_step P mk s = Some (Inr s1)"
    by (subst (asm) area_loop.simps) (auto split: option.splits sum.splits)
  with "1.prems" have r: "(if hi s1 - lo s1 < 1 / 100 then Some (Inr s1) else area_loop P mk s1) = Some (Inr s')"
    by (subst (asm) area_loop.simps) simp
  have "if hi s1 - lo s1 < 1 / 100 then s' = s1 else loop_post P mk (1 / 100) s1 s'"
  proof (cases "hi s1 - lo s1 < 1 / 100")
    case True
    with r show ?thesis by simp
  next
    case False
    with r have "area_loop P mk s1 = Some (Inr s')" by simp
    with "1.IH"[OF st refl False] False show ?thesis by simp
  qed
  with st show ?case by (rule loop_post_step)
qed

lemma search_post:
  "slr_crossing_search P init sm gc pa al lo0 hi0 t = Some (Inr s) \<Longrightarrow>
     loop_post P (slr_crossing_args init gc pa sm al t) 500 (search_init lo0 hi0) s"
  "area_search P init sm gc pa wl lo0 hi0 t = Some (Inr s) \<Longrightarrow>
     loop_post P (area_args init gc pa sm wl t) (1 / 100) (search_init lo0 hi0) s"
  by (auto simp: slr_crossing_search_def area_search_def split: if_splits
      intro: slr_crossing_loop_post area_loop_post)

lemma loop_post_init:
  assumes "loop_post P mk thr (search_init lo0 hi0) s"
  shows "probe_log_ok P mk thr lo0 hi0 (probes s)"
    and "hi s - lo s < thr"
    and "curr_best_v2s s = (case last_success (probes s) of None \<Rightarrow> [] | Some q \<Rightarrow> probe_result q)"
    and "curr_min s = (case last_success (probes s) of None \<Rightarrow> None | Some q \<Rightarrow> Some (probe_cap q))"
  using assms by (auto simp: loop_post_def search_init_def split: option.splits)



lemma loop_post_cap:
  assumes "loop_post P mk thr (search_init lo0 hi0) s" "curr_best_v2s s \<noteq> []"
  shows "\<exists>a. curr_min s = Some a"
  using loop_post_init(3,4)[OF assms(1)] assms(2) by (auto split: option.splits)





lemmas search_eval = slr_crossing_search_def area_search_def search_init_def
  slr_crossing_loop.simps area_loop.simps probe_step_def slr_crossing_args_def area_args_def
  part_ex_def Let_def u_binary_search_slr_crossing_limit_def u_binary_search_area_limit_def
  returned_def num_or_none_def








lemma returned_Inr:
  "returned r = Some (Inr (m, c)) \<Longrightarrow> \<exists>s. r = Some (Inr s) \<and> curr_best_v2s s = m \<and> curr_min s = c"
  by (auto simp: returned_def split: option.splits sum.splits)

lemma binary_search_cap:
  "u_binary_search_area_limit P init sm gc pa wl lo0 hi0 t = Some (Inr (m, c)) \<Longrightarrow> m \<noteq> [] \<Longrightarrow>
     \<exists>a. c = Some a"
  "u_binary_search_slr_crossing_limit P init sm gc pa al lo0 hi0 t = Some (Inr (m, c)) \<Longrightarrow> m \<noteq> [] \<Longrightarrow>
     \<exists>a. c = Some a"
  unfolding u_binary_search_area_limit_def u_binary_search_slr_crossing_limit_def
  by (auto dest!: returned_Inr dest: search_post loop_post_cap)

text \<open>
  C5. Under \<^verbatim>\<open>AREA_PRIORITIZED\<close>: when the area search, run with \<^verbatim>\<open>max_slr_width_limit\<close>,
  finds no mapping, \<^verbatim>\<open>partition_area_prioritized\<close> returns the empty mapping. Otherwise the
  area search has found a cap \<open>a\<close>, the crossing search runs with \<open>a\<close> as its area limit,
  and the function returns the crossing search's mapping, or the area search's mapping when
  the crossing search finds none.
\<close>

theorem partition_area_prioritized_result:
  "(u_binary_search_area_limit P init sm gc pa (PNum max_w) min_a max_a t = Some (Inr ([], c)) \<longrightarrow>
      partition_area_prioritized P init sm gc pa min_a max_a min_w max_w t = Some (Inr [])) \<and>
   (u_binary_search_area_limit P init sm gc pa (PNum max_w) min_a max_a t = Some (Inr (curr_v2s, c)) \<and>
    curr_v2s \<noteq> [] \<longrightarrow>
      (\<exists>a. c = Some a \<and>
         partition_area_prioritized P init sm gc pa min_a max_a min_w max_w t =
           (case u_binary_search_slr_crossing_limit P init sm gc pa (PNum a) min_w max_w t of
              None \<Rightarrow> None
            | Some (Inl e) \<Rightarrow> Some (Inl e)
            | Some (Inr (best_v2s, curr_slr_limit)) \<Rightarrow>
                Some (Inr (if best_v2s = [] then curr_v2s else best_v2s)))))"
proof (intro conjI impI)
  assume "u_binary_search_area_limit P init sm gc pa (PNum max_w) min_a max_a t = Some (Inr ([], c))"
  then show "partition_area_prioritized P init sm gc pa min_a max_a min_w max_w t = Some (Inr [])"
    by (simp add: partition_area_prioritized_def)
next
  assume a: "u_binary_search_area_limit P init sm gc pa (PNum max_w) min_a max_a t =
      Some (Inr (curr_v2s, c)) \<and> curr_v2s \<noteq> []"
  then have "u_binary_search_area_limit P init sm gc pa (PNum max_w) min_a max_a t =
      Some (Inr (curr_v2s, c))" and "curr_v2s \<noteq> []"
    by blast+
  from binary_search_cap(1)[OF this] obtain q where q: "c = Some q" ..
  with a have "partition_area_prioritized P init sm gc pa min_a max_a min_w max_w t =
           (case u_binary_search_slr_crossing_limit P init sm gc pa (PNum q) min_w max_w t of
              None \<Rightarrow> None
            | Some (Inl e) \<Rightarrow> Some (Inl e)
            | Some (Inr (best_v2s, curr_slr_limit)) \<Rightarrow>
                Some (Inr (if best_v2s = [] then curr_v2s else best_v2s)))"
    by (auto simp: partition_area_prioritized_def num_or_none_def split: option.splits sum.splits)
  with q show "\<exists>a. c = Some a \<and>
         partition_area_prioritized P init sm gc pa min_a max_a min_w max_w t =
           (case u_binary_search_slr_crossing_limit P init sm gc pa (PNum a) min_w max_w t of
              None \<Rightarrow> None
            | Some (Inl e) \<Rightarrow> Some (Inl e)
            | Some (Inr (best_v2s, curr_slr_limit)) \<Rightarrow>
                Some (Inr (if best_v2s = [] then curr_v2s else best_v2s)))"
    by blast
qed

lemma area_prio_ex:
  "u_binary_search_area_limit (part_ex 12000) [(0, 0)] 0 [] [] (PNum 10000) (13 / 20) (17 / 20) 600 =
     Some (Inr ([], None))"
  "u_binary_search_area_limit (part_ex 12000) [(0, 0)] 0 [] [] (PNum 15000) (13 / 20) (17 / 20) 600 =
     Some (Inr ([(0, 0)], Some (7 / 10)))"
  "u_binary_search_slr_crossing_limit (part_ex 12000) [(0, 0)] 0 [] [] (PNum (7 / 10)) 10000 15000 600 =
     Some (Inr ([(0, 0)], Some (24375 / 2)))"
  "u_binary_search_area_limit (part_ex 15000) [(0, 0)] 0 [] [] (PNum 15000) (13 / 20) (17 / 20) 600 =
     Some (Inr ([(0, 0)], Some (7 / 10)))"
  "u_binary_search_slr_crossing_limit (part_ex 15000) [(0, 0)] 0 [] [] (PNum (7 / 10)) 10000 15000 600 =
     Some (Inr ([], None))"
  by (simp_all add: search_eval)

theorem partition_area_prioritized_result_witness:
  "u_binary_search_area_limit (part_ex 12000) [(0, 0)] 0 [] [] (PNum 10000) (13 / 20) (17 / 20) 600 =
     Some (Inr ([], None)) \<and>
   partition_area_prioritized (part_ex 12000) [(0, 0)] 0 [] [] (13 / 20) (17 / 20) 5000 10000 600 =
     Some (Inr []) \<and>
   u_binary_search_area_limit (part_ex 12000) [(0, 0)] 0 [] [] (PNum 15000) (13 / 20) (17 / 20) 600 =
     Some (Inr ([(0, 0)], Some (7 / 10))) \<and>
   partition_area_prioritized (part_ex 12000) [(0, 0)] 0 [] [] (13 / 20) (17 / 20) 10000 15000 600 =
     Some (Inr [(0, 0)]) \<and>
   partition_area_prioritized (part_ex 15000) [(0, 0)] 0 [] [] (13 / 20) (17 / 20) 10000 15000 600 =
     Some (Inr [(0, 0)])"
proof -
  from partition_area_prioritized_result[where P = "part_ex 12000" and init = "[(0, 0)]" and sm = 0
      and gc = "[]" and pa = "[]" and max_w = 10000 and min_w = 5000 and min_a = "13 / 20"
      and max_a = "17 / 20" and t = 600 and c = None] area_prio_ex(1)
  have a: "partition_area_prioritized (part_ex 12000) [(0, 0)] 0 [] [] (13 / 20) (17 / 20) 5000 10000 600 =
     Some (Inr [])"
    by simp
  have b: "partition_area_prioritized (part_ex 12000) [(0, 0)] 0 [] [] (13 / 20) (17 / 20) 10000 15000 600 =
     Some (Inr [(0, 0)])"
  proof -
    note t = partition_area_prioritized_result[where P = "part_ex 12000" and init = "[(0, 0)]"
      and sm = 0 and gc = "[]" and pa = "[]" and max_w = 15000 and min_w = 10000
      and min_a = "13 / 20" and max_a = "17 / 20" and t = 600 and c = "Some (7 / 10)"
      and curr_v2s = "[(0, 0)]"]
    have "\<exists>a. Some (7 / 10) = Some a \<and>
         partition_area_prioritized (part_ex 12000) [(0, 0)] 0 [] [] (13 / 20) (17 / 20) 10000 15000 600 =
           (case u_binary_search_slr_crossing_limit (part_ex 12000) [(0, 0)] 0 [] [] (PNum a) 10000 15000 600 of
              None \<Rightarrow> None
            | Some (Inl e) \<Rightarrow> Some (Inl e)
            | Some (Inr (best_v2s, curr_slr_limit)) \<Rightarrow>
                Some (Inr (if best_v2s = [] then [(0, 0)] else best_v2s)))"
      by (rule mp[OF conjunct2[OF t]]) (simp add: area_prio_ex(2))
    then obtain a where a1: "Some (7 / 10) = Some a"
      and a2: "partition_area_prioritized (part_ex 12000) [(0, 0)] 0 [] [] (13 / 20) (17 / 20) 10000 15000 600 =
           (case u_binary_search_slr_crossing_limit (part_ex 12000) [(0, 0)] 0 [] [] (PNum a) 10000 15000 600 of
              None \<Rightarrow> None
            | Some (Inl e) \<Rightarrow> Some (Inl e)
            | Some (Inr (best_v2s, curr_slr_limit)) \<Rightarrow>
                Some (Inr (if best_v2s = [] then [(0, 0)] else best_v2s)))"
      by (elim exE conjE)
    from a1 have "a = 7 / 10" by (simp only: option.inject)
    from a2[unfolded this] show ?thesis by (simp add: area_prio_ex(3))
  qed
  have c: "partition_area_prioritized (part_ex 15000) [(0, 0)] 0 [] [] (13 / 20) (17 / 20) 10000 15000 600 =
     Some (Inr [(0, 0)])"
  proof -
    note t = partition_area_prioritized_result[where P = "part_ex 15000" and init = "[(0, 0)]"
      and sm = 0 and gc = "[]" and pa = "[]" and max_w = 15000 and min_w = 10000
      and min_a = "13 / 20" and max_a = "17 / 20" and t = 600 and c = "Some (7 / 10)"
      and curr_v2s = "[(0, 0)]"]
    have "\<exists>a. Some (7 / 10) = Some a \<and>
         partition_area_prioritized (part_ex 15000) [(0, 0)] 0 [] [] (13 / 20) (17 / 20) 10000 15000 600 =
           (case u_binary_search_slr_crossing_limit (part_ex 15000) [(0, 0)] 0 [] [] (PNum a) 10000 15000 600 of
              None \<Rightarrow> None
            | Some (Inl e) \<Rightarrow> Some (Inl e)
            | Some (Inr (best_v2s, curr_slr_limit)) \<Rightarrow>
                Some (Inr (if best_v2s = [] then [(0, 0)] else best_v2s)))"
      by (rule mp[OF conjunct2[OF t]]) (simp add: area_prio_ex(4))
    then obtain a where a1: "Some (7 / 10) = Some a"
      and a2: "partition_area_prioritized (part_ex 15000) [(0, 0)] 0 [] [] (13 / 20) (17 / 20) 10000 15000 600 =
           (case u_binary_search_slr_crossing_limit (part_ex 15000) [(0, 0)] 0 [] [] (PNum a) 10000 15000 600 of
              None \<Rightarrow> None
            | Some (Inl e) \<Rightarrow> Some (Inl e)
            | Some (Inr (best_v2s, curr_slr_limit)) \<Rightarrow>
                Some (Inr (if best_v2s = [] then [(0, 0)] else best_v2s)))"
      by (elim exE conjE)
    from a1 have "a = 7 / 10" by (simp only: option.inject)
    from a2[unfolded this] show ?thesis by (simp add: area_prio_ex(5))
  qed
  from a b c area_prio_ex(1,2) show ?thesis by simp
qed

section \<open>Properties of FourWayPartition.py\<close>

subsection \<open>The retry loop\<close>

lemma round_half_even_lower: "q - 1 / 2 \<le> of_int (round_half_even q)"
proof -
  have "of_int \<lfloor>q\<rfloor> \<le> q" "q < of_int \<lfloor>q\<rfloor> + 1" by linarith+
  then show ?thesis
    by (auto simp: round_half_even_def Let_def)
qed

lemma py_round_2_lower: "q - 1 / 200 \<le> py_round q 2"
proof -
  have "q * 100 - 1 / 2 \<le> of_int (round_half_even (q * 100))"
    by (rule round_half_even_lower)
  then show ?thesis by (simp add: py_round_def field_simps)
qed

lemma retry_cap_shift:
  "retry_cap ref d (Suc k) = retry_cap (py_round (ref + d) 2) d k"
  by (induction k) simp_all

lemma retry_outcome_Suc:
  assumes first: "u_four_way_partition env init_v2s gc pa sm ref t 12000 12000 12000 = Inr []"
    and small: "py_round (ref + 1 / 50) 2 < 2"
    and rest: "retry_outcome env init_v2s gc pa sm t (py_round (ref + 1 / 50) 2) k r"
  shows "retry_outcome env init_v2s gc pa sm t ref (Suc k) r"
proof -
  have "u_four_way_partition env init_v2s gc pa sm (retry_cap ref (1 / 50) j) t
                12000 12000 12000 = Inr [] \<and>
             retry_cap ref (1 / 50) (Suc j) < 2" if "j < Suc k" for j
  proof (cases j)
    case 0
    with first small show ?thesis by simp
  next
    case (Suc i)
    with that have "i < k" by simp
    with rest show ?thesis
      unfolding retry_outcome_def Suc retry_cap_shift[of ref] by blast
  qed
  moreover from rest have "case u_four_way_partition env init_v2s gc pa sm (retry_cap ref (1 / 50) (Suc k)) t
              12000 12000 12000 of
         Inl e \<Rightarrow> r = Some (Inl e)
       | Inr v2s \<Rightarrow>
           if v2s \<noteq> [] then r = Some (Inr v2s)
           else 2 \<le> retry_cap ref (1 / 50) (Suc (Suc k)) \<and> r = Some (Inr [])"
    unfolding retry_outcome_def retry_cap_shift[of ref] by blast
  ultimately show ?thesis unfolding retry_outcome_def by blast
qed

lemma four_way_partition_loop_outcome:
  "\<exists>k. retry_outcome env init_v2s gc pa sm t c k
     (four_way_partition_loop env init_v2s gc pa sm t (1 / 50) 2 c)"
proof (induction "nat \<lceil>(2 - c) * 100\<rceil>" arbitrary: c rule: less_induct)
  case less
  let ?inner = "u_four_way_partition env init_v2s gc pa sm c t 12000 12000 12000"
  let ?c' = "py_round (c + 1 / 50) 2"
  show ?case
  proof (cases ?inner)
    case (Inl e)
    then have "retry_outcome env init_v2s gc pa sm t c 0
       (four_way_partition_loop env init_v2s gc pa sm t (1 / 50) 2 c)"
      by (subst four_way_partition_loop.simps) (simp add: retry_outcome_def)
    then show ?thesis ..
  next
    case (Inr v2s)
    show ?thesis
    proof (cases "v2s = []")
      case False
      with Inr have "retry_outcome env init_v2s gc pa sm t c 0
         (four_way_partition_loop env init_v2s gc pa sm t (1 / 50) 2 c)"
        by (subst four_way_partition_loop.simps) (simp add: retry_outcome_def)
      then show ?thesis ..
    next
      case True
      show ?thesis
      proof (cases "2 \<le> ?c'")
        case True
        with Inr \<open>v2s = []\<close> have "retry_outcome env init_v2s gc pa sm t c 0
           (four_way_partition_loop env init_v2s gc pa sm t (1 / 50) 2 c)"
          by (subst four_way_partition_loop.simps) (simp add: retry_outcome_def Let_def)
        then show ?thesis ..
      next
        case False
        then have small: "?c' < 2" by simp
        define x where "x = (2 - c) * 100"
        define x' where "x' = (2 - ?c') * 100"
        have "c + 1 / 50 - 1 / 200 \<le> ?c'" by (rule py_round_2_lower)
        then have "x' \<le> x - 1" by (simp add: x_def x'_def)
        then have "\<lceil>x'\<rceil> \<le> \<lceil>x - 1\<rceil>" by (rule ceiling_mono)
        moreover have "\<lceil>x - 1\<rceil> = \<lceil>x\<rceil> - 1" by (rule ceiling_diff_one)
        moreover have "0 < x'" using small by (simp add: x'_def)
        then have "0 < \<lceil>x'\<rceil>" by simp
        ultimately have "nat \<lceil>x'\<rceil> < nat \<lceil>x\<rceil>" by linarith
        then have "nat \<lceil>(2 - ?c') * 100\<rceil> < nat \<lceil>(2 - c) * 100\<rceil>"
          by (simp only: x_def x'_def)
        from less[OF this] obtain k where k: "retry_outcome env init_v2s gc pa sm t ?c' k
           (four_way_partition_loop env init_v2s gc pa sm t (1 / 50) 2 ?c')"
          by blast
        from Inr \<open>v2s = []\<close> small
        have eq: "four_way_partition_loop env init_v2s gc pa sm t (1 / 50) 2 c =
                  four_way_partition_loop env init_v2s gc pa sm t (1 / 50) 2 ?c'"
          by (subst four_way_partition_loop.simps) (simp add: Let_def)
        from Inr \<open>v2s = []\<close> have first: "?inner = Inr []" by simp
        from retry_outcome_Suc[OF first small k]
        have "retry_outcome env init_v2s gc pa sm t c (Suc k)
           (four_way_partition_loop env init_v2s gc pa sm t (1 / 50) 2 c)"
          by (simp only: eq)
        then show ?thesis ..
      qed
    qed
  qed
qed


lemmas four_way_eval =
  u_four_way_partition_def add_constraints_def u_get_slot_by_idx_closure_def u_get_slot_to_idx_def
  product_2_2_def u_add_area_constraints_def add_area_constraints_leaf_def
  add_choose_constraints_def choose_expr_def str_of_bit_def
  u_add_slr_0_1_crossing_constraint_def u_add_slr_1_2_crossing_constraint_def
  u_add_slr_2_3_crossing_constraint_def add_crossing_constraint_def
  u_add_pre_assignment_def pre_assign_def pre_assign_leaf_def
  u_add_grouping_constraints_def add_grouping_def u_add_opt_goal_def
  u_get_results_def select_slot_def add_var_def add_constr_def xsum_def Model_init_def
  bind_err_def lookup_def list_get_def py_int_def satisfies_def Let_def

lemma four_way_ex:
  "u_four_way_partition env_ex init_ex [] [] 0 r t 12000 12000 12000 =
     (if 76 \<le> 100 * r then Inr [(0, 0), (1, 0)] else Inr [])"
  by (simp add: four_way_eval env_ex_def init_ex_def sol_ex_def)

lemma py_round_ex:
  "py_round (18 / 25) 2 = 18 / 25" "py_round (37 / 50) 2 = 37 / 50"
  "py_round (19 / 25) 2 = 19 / 25"
  "py_round (199 / 100) 2 = 199 / 100" "py_round (201 / 100) 2 = 201 / 100"
  by (simp_all add: py_round_def round_half_even_def Let_def)



lemma four_way_partition_ex:
  "four_way_partition env_ex init_ex 0 [] [] (7 / 10) 600 (1 / 50) 2 = Some (Inr [(0, 0), (1, 0)])"
  unfolding four_way_partition_def
  apply (subst four_way_partition_loop.simps, simp add: four_way_ex py_round_ex Let_def)
  apply (subst four_way_partition_loop.simps, simp add: four_way_ex py_round_ex Let_def)
  apply (subst four_way_partition_loop.simps, simp add: four_way_ex py_round_ex Let_def)
  apply (subst four_way_partition_loop.simps, simp add: four_way_ex py_round_ex Let_def)
  done


subsection \<open>The call of the solver and its results\<close>

lemma for_each_append:
  "for_each (xs @ ys) body s = bind_err (for_each xs body s) (for_each ys body)"
  by (induction xs arbitrary: s) (auto simp: bind_err_def split: sum.splits)

lemma for_each_unchanged:
  "(\<And>x. x \<in> set xs \<Longrightarrow> body x s = Inr s) \<Longrightarrow> for_each xs body s = Inr s"
  by (induction xs) auto

lemma update_fresh: "k \<notin> fst ` set al \<Longrightarrow> AList.update k v al = al @ [(k, v)]"
  by (induction al) auto

lemma list_get_mem: "list_get xs i = Inr s \<Longrightarrow> s \<in> set xs"
  by (auto simp: list_get_def split: if_splits)

lemma closure_mem:
  "u_get_slot_by_idx_closure env sm a b = Inr s \<Longrightarrow>
     s \<in> set (getLeafSlotsAfterPartition env sm [horizontal, horizontal])"
  by (simp add: u_get_slot_by_idx_closure_def Let_def list_get_mem)

lemma u_four_way_partition_model:
  "u_four_way_partition env init_v2s gc pa sm r t w01 w12 w23 =
     bind_err (four_way_model env init_v2s gc pa sm r w01 w12 w23)
       (\<lambda>m. u_get_results (optimize env m t) (map fst init_v2s) (u_get_slot_by_idx_closure env sm)
               (fst (y_vars env (map fst init_v2s))) (snd (y_vars env (map fst init_v2s))))"
  by (simp add: u_four_way_partition_def four_way_model_def y_vars_def Let_def split: prod.splits)

lemma select_slot_Inr:
  "select_slot m func y1 y2 v acc = Inr acc' \<Longrightarrow>
     \<exists>a b s. map_of y1 v = Some a \<and> map_of y2 v = Some b \<and>
       func (py_int (var_x m a)) (py_int (var_x m b)) = Inr s \<and> acc' = AList.update v s acc"
  by (auto simp: select_slot_def bind_err_def lookup_def split: sum.splits option.splits)

lemma results_loop:
  assumes "for_each vs (select_slot m func y1 y2) acc = Inr res"
    and "distinct vs" "set vs \<inter> fst ` set acc = {}"
  shows "map fst res = map fst acc @ vs \<and>
         (\<forall>p\<in>set res. p \<in> set acc \<or>
            (fst p \<in> set vs \<and> (\<exists>a b. map_of y1 (fst p) = Some a \<and> map_of y2 (fst p) = Some b \<and>
               func (py_int (var_x m a)) (py_int (var_x m b)) = Inr (snd p))))"
  using assms
proof (induction vs arbitrary: acc)
  case Nil
  then show ?case by simp
next
  case (Cons v vs)
  from Cons.prems(1) obtain acc1 where st: "select_slot m func y1 y2 v acc = Inr acc1"
    and rest: "for_each vs (select_slot m func y1 y2) acc1 = Inr res"
    by (auto split: sum.splits)
  from select_slot_Inr[OF st] obtain a b s where a: "map_of y1 v = Some a" and b: "map_of y2 v = Some b"
    and f: "func (py_int (var_x m a)) (py_int (var_x m b)) = Inr s"
    and acc1: "acc1 = AList.update v s acc"
    by blast
  from Cons.prems(3) have fresh: "v \<notin> fst ` set acc" by auto
  then have acc1': "acc1 = acc @ [(v, s)]" using acc1 by (simp add: update_fresh)
  have "set vs \<inter> fst ` set acc1 = {}" using Cons.prems(2,3) by (auto simp: acc1')
  with Cons.IH[OF rest] Cons.prems(2)
  have ih: "map fst res = map fst acc1 @ vs \<and>
         (\<forall>p\<in>set res. p \<in> set acc1 \<or>
            (fst p \<in> set vs \<and> (\<exists>a b. map_of y1 (fst p) = Some a \<and> map_of y2 (fst p) = Some b \<and>
               func (py_int (var_x m a)) (py_int (var_x m b)) = Inr (snd p))))"
    by simp
  then have keys: "map fst res = map fst acc @ v # vs" by (simp add: acc1')
  have "p \<in> set acc \<or>
            (fst p \<in> set (v # vs) \<and> (\<exists>a b. map_of y1 (fst p) = Some a \<and> map_of y2 (fst p) = Some b \<and>
               func (py_int (var_x m a)) (py_int (var_x m b)) = Inr (snd p)))" if "p \<in> set res" for p
  proof -
    from ih that consider "p \<in> set acc1" | "fst p \<in> set vs \<and> (\<exists>a b. map_of y1 (fst p) = Some a \<and> map_of y2 (fst p) = Some b \<and>
               func (py_int (var_x m a)) (py_int (var_x m b)) = Inr (snd p))"
      by blast
    then show ?thesis
    proof cases
      case 1
      then have "p \<in> set acc \<or> p = (v, s)" by (auto simp: acc1')
      with a b f show ?thesis by auto
    next
      case 2
      then show ?thesis by auto
    qed
  qed
  with keys show ?case by blast
qed

lemma get_results_shape:
  assumes "u_get_results m vs func y1 y2 = Inr res" "distinct vs"
  shows "res = [] \<or> (map fst res = vs \<and>
           (\<forall>p\<in>set res. \<exists>a b. map_of y1 (fst p) = Some a \<and> map_of y2 (fst p) = Some b \<and>
               func (py_int (var_x m a)) (py_int (var_x m b)) = Inr (snd p)))"
proof (cases "status m = OPTIMAL \<or> status m = FEASIBLE")
  case True
  with assms(1) have "for_each vs (select_slot m func y1 y2) [] = Inr res"
    by (simp add: u_get_results_def)
  from results_loop[OF this assms(2)] show ?thesis by auto
next
  case False
  with assms(1) show ?thesis by (simp add: u_get_results_def)
qed

lemma u_four_way_partition_shape:
  assumes "u_four_way_partition env init_v2s gc pa sm r t w01 w12 w23 = Inr res"
    and "distinct (map fst init_v2s)"
  shows "res = [] \<or> (map fst res = map fst init_v2s \<and>
     snd ` set res \<subseteq> set (getLeafSlotsAfterPartition env sm [horizontal, horizontal]))"
proof -
  from assms(1) obtain m where "u_get_results (optimize env m t) (map fst init_v2s)
       (u_get_slot_by_idx_closure env sm)
       (fst (y_vars env (map fst init_v2s))) (snd (y_vars env (map fst init_v2s))) = Inr res"
    unfolding u_four_way_partition_model by (auto simp: bind_err_def split: sum.splits)
  from get_results_shape[OF this assms(2)] show ?thesis
    by (auto dest: closure_mem)
qed

text \<open>
  C7. The mapping returned by a call of the four-way bipartition (\<^verbatim>\<open>_four_way_partition\<close>,
  and \<^verbatim>\<open>four_way_partition\<close> with its default increment and hard limit) is either empty or
  has exactly the vertices of \<^verbatim>\<open>init_v2s\<close> as its keys, in their order, each mapped to one
  of the leaf slots that the slot manager returns for the two horizontal splits. The keys
  of \<^verbatim>\<open>init_v2s\<close>, a dictionary, are distinct.
\<close>
theorem four_way_partition_coverage:
  "distinct (map fst init_v2s) \<longrightarrow>
     (u_four_way_partition env init_v2s gc pa sm r t w01 w12 w23 = Inr res \<longrightarrow>
        res = [] \<or> (map fst res = map fst init_v2s \<and>
          snd ` set res \<subseteq> set (getLeafSlotsAfterPartition env sm [horizontal, horizontal]))) \<and>
     (four_way_partition env init_v2s sm gc pa ref t (1 / 50) 2 = Some (Inr res) \<longrightarrow>
        res = [] \<or> (map fst res = map fst init_v2s \<and>
          snd ` set res \<subseteq> set (getLeafSlotsAfterPartition env sm [horizontal, horizontal])))"
proof (intro impI conjI)
  assume d: "distinct (map fst init_v2s)"
  {
    assume "u_four_way_partition env init_v2s gc pa sm r t w01 w12 w23 = Inr res"
    from u_four_way_partition_shape[OF this d]
    show "res = [] \<or> (map fst res = map fst init_v2s \<and>
          snd ` set res \<subseteq> set (getLeafSlotsAfterPartition env sm [horizontal, horizontal]))" .
  }
  assume r: "four_way_partition env init_v2s sm gc pa ref t (1 / 50) 2 = Some (Inr res)"
  from four_way_partition_loop_outcome[of env init_v2s gc pa sm t ref]
  obtain k where "retry_outcome env init_v2s gc pa sm t ref k (Some (Inr res))"
    unfolding four_way_partition_def[symmetric] r ..
  then consider "res = []"
    | c where "u_four_way_partition env init_v2s gc pa sm c t 12000 12000 12000 = Inr res"
    unfolding retry_outcome_def by (auto split: sum.splits if_splits)
  then show "res = [] \<or> (map fst res = map fst init_v2s \<and>
          snd ` set res \<subseteq> set (getLeafSlotsAfterPartition env sm [horizontal, horizontal]))"
  proof cases
    case 1
    then show ?thesis by simp
  next
    case 2
    from u_four_way_partition_shape[OF this d] show ?thesis .
  qed
qed

theorem four_way_partition_coverage_witness:
  "distinct (map fst init_ex) \<and>
   u_four_way_partition env_ex init_ex [] [] 0 (4 / 5) 600 12000 12000 12000 = Inr [(0, 0), (1, 0)] \<and>
   four_way_partition env_ex init_ex 0 [] [] (7 / 10) 600 (1 / 50) 2 = Some (Inr [(0, 0), (1, 0)]) \<and>
   map fst [(0, 0), (1, 0 :: nat)] = map fst init_ex \<and>
   snd ` set [(0 :: nat, 0), (1, 0)] \<subseteq> set (getLeafSlotsAfterPartition env_ex 0 [horizontal, horizontal])"
proof -
  have d: "distinct (map fst init_ex)" by (simp add: init_ex_def)
  have u: "u_four_way_partition env_ex init_ex [] [] 0 (4 / 5) 600 12000 12000 12000 = Inr [(0, 0), (1, 0)]"
    by (simp add: four_way_ex)
  from four_way_partition_coverage[where init_v2s = init_ex and env = env_ex and gc = "[]"
      and pa = "[]" and sm = 0 and r = "4 / 5" and t = 600 and ?w01.0 = 12000 and ?w12.0 = 12000
      and ?w23.0 = 12000 and res = "[(0, 0), (1, 0)]" and ref = "7 / 10"] d u four_way_partition_ex
  have "map fst [(0, 0), (1, 0 :: nat)] = map fst init_ex \<and>
   snd ` set [(0 :: nat, 0), (1, 0)] \<subseteq> set (getLeafSlotsAfterPartition env_ex 0 [horizontal, horizontal])"
    by simp
  with d u four_way_partition_ex show ?thesis by simp
qed

lemma add_y_vars_keys:
  "add_y_vars env vs (d1, d2, m) = (d1', d2', m') \<Longrightarrow>
     fst ` set d1' = fst ` set d1 \<union> set vs \<and> fst ` set d2' = fst ` set d2 \<union> set vs"
proof (induction vs arbitrary: d1 d2 m)
  case Nil
  then show ?case by simp
next
  case (Cons v vs)
  from Cons.prems obtain a b m2 where
    "add_y_vars env vs (AList.update v a d1, AList.update v b d2, m2) = (d1', d2', m')"
    by (auto simp: Let_def split: prod.splits)
  from Cons.IH[OF this] show ?case by (auto simp: dom_update)
qed

lemma y_vars_defined:
  assumes "v \<in> set vs"
  shows "\<exists>a b. map_of (fst (y_vars env vs)) v = Some a \<and> map_of (snd (y_vars env vs)) v = Some b"
proof -
  obtain d1 d2 m where e: "add_y_vars env vs ([], [], Model_init) = (d1, d2, m)"
    by (metis prod_cases3)
  from add_y_vars_keys[OF e] assms have "v \<in> fst ` set d1" "v \<in> fst ` set d2" by auto
  then have "map_of d1 v \<noteq> None" "map_of d2 v \<noteq> None"
    by (simp_all add: map_of_eq_None_iff)
  then show ?thesis by (auto simp: y_vars_def e)
qed

lemma results_loop_total:
  assumes "\<And>v. v \<in> set vs \<Longrightarrow> \<exists>a b s. map_of y1 v = Some a \<and> map_of y2 v = Some b \<and>
              func (py_int (var_x m a)) (py_int (var_x m b)) = Inr s"
  shows "\<exists>res. for_each vs (select_slot m func y1 y2) acc = Inr res"
  using assms
proof (induction vs arbitrary: acc)
  case Nil
  then show ?case by simp
next
  case (Cons v vs)
  from Cons.prems[of v] obtain a b s where "map_of y1 v = Some a" "map_of y2 v = Some b"
    "func (py_int (var_x m a)) (py_int (var_x m b)) = Inr s"
    by auto
  then have "select_slot m func y1 y2 v acc = Inr (AList.update v s acc)"
    by (simp add: select_slot_def bind_err_def lookup_def)
  moreover from Cons.IH[of "AList.update v s acc"] Cons.prems
  obtain res where "for_each vs (select_slot m func y1 y2) (AList.update v s acc) = Inr res"
    by auto
  ultimately show ?case by simp
qed

lemma py_int_bit: "- 1 < q \<Longrightarrow> q < 2 \<Longrightarrow> py_int q = 0 \<or> py_int q = 1"
  unfolding py_int_def by (auto; linarith)

lemma closure_total:
  assumes "length (getLeafSlotsAfterPartition env sm [horizontal, horizontal]) = 4"
    and "- 1 < p" "p < 2" "- 1 < q" "q < 2"
  shows "u_get_slot_by_idx_closure env sm (py_int p) (py_int q) =
     Inr (getLeafSlotsAfterPartition env sm [horizontal, horizontal] ! nat (py_int p * 2 + py_int q))"
  using py_int_bit[OF assms(2,3)] py_int_bit[OF assms(4,5)] assms(1)
  by (auto simp: u_get_slot_by_idx_closure_def list_get_def Let_def)

lemma get_results_complete:
  assumes st: "status m = OPTIMAL \<or> status m = FEASIBLE"
    and d: "distinct vs"
    and len: "length (getLeafSlotsAfterPartition env sm [horizontal, horizontal]) = 4"
    and def: "\<And>v. v \<in> set vs \<Longrightarrow> \<exists>a b. map_of y1 v = Some a \<and> map_of y2 v = Some b"
    and bin: "\<And>a. a \<in> snd ` set y1 \<union> snd ` set y2 \<Longrightarrow> - 1 < var_x m a \<and> var_x m a < 2"
  shows "\<exists>res. u_get_results m vs (u_get_slot_by_idx_closure env sm) y1 y2 = Inr res \<and>
           map fst res = vs \<and>
           (\<forall>v\<in>set vs. \<exists>a b. map_of y1 v = Some a \<and> map_of y2 v = Some b \<and>
              map_of res v = Some (getLeafSlotsAfterPartition env sm [horizontal, horizontal] !
                 nat (py_int (var_x m a) * 2 + py_int (var_x m b))))"
proof -
  let ?f = "u_get_slot_by_idx_closure env sm"
  let ?L = "getLeafSlotsAfterPartition env sm [horizontal, horizontal]"
  have call: "?f (py_int (var_x m a)) (py_int (var_x m b)) =
      Inr (?L ! nat (py_int (var_x m a) * 2 + py_int (var_x m b)))"
    if "map_of y1 v = Some a" "map_of y2 v = Some b" for v a b
  proof -
    from that have "a \<in> snd ` set y1" "b \<in> snd ` set y2"
      by (force dest: map_of_SomeD)+
    with bin have "- 1 < var_x m a" "var_x m a < 2" "- 1 < var_x m b" "var_x m b < 2" by auto
    with len show ?thesis by (rule closure_total)
  qed
  have "\<exists>a b s. map_of y1 v = Some a \<and> map_of y2 v = Some b \<and>
              ?f (py_int (var_x m a)) (py_int (var_x m b)) = Inr s" if "v \<in> set vs" for v
  proof -
    from def[OF that] obtain a b where ab: "map_of y1 v = Some a" "map_of y2 v = Some b"
      by (elim exE conjE)
    from ab call[OF ab] show ?thesis by (intro exI conjI)
  qed
  from results_loop_total[of vs y1 y2 ?f m "[]", OF this]
  obtain res where loop: "for_each vs (select_slot m ?f y1 y2) [] = Inr res" ..
  with st have r: "u_get_results m vs ?f y1 y2 = Inr res" by (simp add: u_get_results_def)
  from results_loop[OF loop d] have keys: "map fst res = vs"
    and vals: "\<forall>p\<in>set res. \<exists>a b. map_of y1 (fst p) = Some a \<and> map_of y2 (fst p) = Some b \<and>
               ?f (py_int (var_x m a)) (py_int (var_x m b)) = Inr (snd p)"
    by auto
  have page: "\<exists>a b. map_of y1 v = Some a \<and> map_of y2 v = Some b \<and>
              map_of res v = Some (?L ! nat (py_int (var_x m a) * 2 + py_int (var_x m b)))"
    if "v \<in> set vs" for v
  proof -
    from that keys have "v \<in> fst ` set res" by (simp add: list.set_map[symmetric] del: list.set_map)
    then obtain p where p: "p \<in> set res" "fst p = v" by auto
    from vals p(1) have "\<exists>a b. map_of y1 (fst p) = Some a \<and> map_of y2 (fst p) = Some b \<and>
               ?f (py_int (var_x m a)) (py_int (var_x m b)) = Inr (snd p)" by (rule bspec)
    then obtain a b where ab: "map_of y1 v = Some a" "map_of y2 v = Some b"
      and f: "?f (py_int (var_x m a)) (py_int (var_x m b)) = Inr (snd p)"
      unfolding p(2) by (elim exE conjE)
    from f call[OF ab] have s: "snd p = ?L ! nat (py_int (var_x m a) * 2 + py_int (var_x m b))"
      by simp
    from p have "(v, snd p) \<in> set res" by (cases p) auto
    moreover from keys d have "distinct (map fst res)" by simp
    ultimately have "map_of res v = Some (snd p)" by (rule map_of_is_SomeI[rotated])
    with ab show ?thesis unfolding s by (intro exI conjI)
  qed
  show ?thesis
    by (intro exI[of _ res] conjI ballI) (use r keys page in auto)
qed

text \<open>
  C6. Let \<open>m\<close> be the model that \<^verbatim>\<open>_four_way_partition\<close> hands to the solver. For every
  status other than \<^verbatim>\<open>OPTIMAL\<close> and \<^verbatim>\<open>FEASIBLE\<close> the call returns the empty mapping. For
  \<^verbatim>\<open>OPTIMAL\<close> and \<^verbatim>\<open>FEASIBLE\<close> it returns a complete mapping, each vertex on the leaf at
  index \<open>2 * int(y1.x) + int(y2.x)\<close>, without raising, provided the slot manager returns
  four leaves and the solver gives each coordinate variable a value that truncates to 0 or
  1 (strictly between -1 and 2).
\<close>
theorem four_way_solve_by_status:
  "four_way_model env init_v2s gc pa sm r w01 w12 w23 = Inr m \<longrightarrow>
     (status (optimize env m t) \<noteq> OPTIMAL \<and> status (optimize env m t) \<noteq> FEASIBLE \<longrightarrow>
        u_four_way_partition env init_v2s gc pa sm r t w01 w12 w23 = Inr []) \<and>
     ((status (optimize env m t) = OPTIMAL \<or> status (optimize env m t) = FEASIBLE) \<and>
      distinct (map fst init_v2s) \<and>
      length (getLeafSlotsAfterPartition env sm [horizontal, horizontal]) = 4 \<and>
      (\<forall>a\<in>snd ` set (fst (y_vars env (map fst init_v2s))) \<union>
            snd ` set (snd (y_vars env (map fst init_v2s))).
          - 1 < var_x (optimize env m t) a \<and> var_x (optimize env m t) a < 2) \<longrightarrow>
        (\<exists>res. u_four_way_partition env init_v2s gc pa sm r t w01 w12 w23 = Inr res \<and>
           map fst res = map fst init_v2s \<and>
           (\<forall>v\<in>set (map fst init_v2s).
              \<exists>a b. map_of (fst (y_vars env (map fst init_v2s))) v = Some a \<and>
                    map_of (snd (y_vars env (map fst init_v2s))) v = Some b \<and>
                    map_of res v =
                      Some (getLeafSlotsAfterPartition env sm [horizontal, horizontal] !
                        nat (py_int (var_x (optimize env m t) a) * 2 +
                             py_int (var_x (optimize env m t) b))))))"
proof (intro impI conjI)
  assume m: "four_way_model env init_v2s gc pa sm r w01 w12 w23 = Inr m"
  then have u: "u_four_way_partition env init_v2s gc pa sm r t w01 w12 w23 =
      u_get_results (optimize env m t) (map fst init_v2s) (u_get_slot_by_idx_closure env sm)
         (fst (y_vars env (map fst init_v2s))) (snd (y_vars env (map fst init_v2s)))"
    by (simp add: u_four_way_partition_model bind_err_def)
  {
    assume "status (optimize env m t) \<noteq> OPTIMAL \<and> status (optimize env m t) \<noteq> FEASIBLE"
    then show "u_four_way_partition env init_v2s gc pa sm r t w01 w12 w23 = Inr []"
      by (simp add: u u_get_results_def)
  }
  assume a: "(status (optimize env m t) = OPTIMAL \<or> status (optimize env m t) = FEASIBLE) \<and>
      distinct (map fst init_v2s) \<and>
      length (getLeafSlotsAfterPartition env sm [horizontal, horizontal]) = 4 \<and>
      (\<forall>a\<in>snd ` set (fst (y_vars env (map fst init_v2s))) \<union>
            snd ` set (snd (y_vars env (map fst init_v2s))).
          - 1 < var_x (optimize env m t) a \<and> var_x (optimize env m t) a < 2)"
  show "\<exists>res. u_four_way_partition env init_v2s gc pa sm r t w01 w12 w23 = Inr res \<and>
           map fst res = map fst init_v2s \<and>
           (\<forall>v\<in>set (map fst init_v2s).
              \<exists>a b. map_of (fst (y_vars env (map fst init_v2s))) v = Some a \<and>
                    map_of (snd (y_vars env (map fst init_v2s))) v = Some b \<and>
                    map_of res v =
                      Some (getLeafSlotsAfterPartition env sm [horizontal, horizontal] !
                        nat (py_int (var_x (optimize env m t) a) * 2 +
                             py_int (var_x (optimize env m t) b))))"
    unfolding u
  proof (rule get_results_complete)
    from a show "status (optimize env m t) = OPTIMAL \<or> status (optimize env m t) = FEASIBLE"
      and "distinct (map fst init_v2s)"
      and "length (getLeafSlotsAfterPartition env sm [horizontal, horizontal]) = 4"
      by simp_all
    show "\<exists>a b. map_of (fst (y_vars env (map fst init_v2s))) v = Some a \<and>
                 map_of (snd (y_vars env (map fst init_v2s))) v = Some b"
      if "v \<in> set (map fst init_v2s)" for v
      using that by (rule y_vars_defined)
    show "- 1 < var_x (optimize env m t) a \<and> var_x (optimize env m t) a < 2"
      if "a \<in> snd ` set (fst (y_vars env (map fst init_v2s))) \<union>
            snd ` set (snd (y_vars env (map fst init_v2s)))" for a
    proof -
      from a have "\<forall>a\<in>snd ` set (fst (y_vars env (map fst init_v2s))) \<union>
            snd ` set (snd (y_vars env (map fst init_v2s))).
          - 1 < var_x (optimize env m t) a \<and> var_x (optimize env m t) a < 2"
        by (elim conjE)
      then show ?thesis using that by (rule bspec)
    qed
  qed
qed

lemma model_ex:
  "\<exists>m. four_way_model env_ex init_ex [] [] 0 r 12000 12000 12000 = Inr m \<and>
        optimize env_ex m t =
          (if 76 \<le> 100 * r then \<lparr>status = OPTIMAL, var_x = sol_ex\<rparr>
           else \<lparr>status = INFEASIBLE, var_x = (\<lambda>_. 0)\<rparr>)"
  by (simp add: four_way_model_def four_way_eval env_ex_def init_ex_def sol_ex_def)

lemma y_vars_ex: "y_vars env_ex (map fst init_ex) = ([(0, 0), (1, 2)], [(0, 1), (1, 3)])"
  by (simp add: y_vars_def env_ex_def init_ex_def add_var_def Model_init_def)

lemma leaves_ex: "getLeafSlotsAfterPartition env_ex 0 [horizontal, horizontal] = [0, 1, 2, 3]"
  by (simp add: env_ex_def)

theorem four_way_solve_by_status_witness:
  "(\<exists>m. four_way_model env_ex init_ex [] [] 0 (4 / 5) 12000 12000 12000 = Inr m \<and>
        status (optimize env_ex m 600) = OPTIMAL \<and>
        (\<exists>res. u_four_way_partition env_ex init_ex [] [] 0 (4 / 5) 600 12000 12000 12000 = Inr res \<and>
               map fst res = map fst init_ex)) \<and>
   (\<exists>m. four_way_model env_ex init_ex [] [] 0 (1 / 2) 12000 12000 12000 = Inr m \<and>
        status (optimize env_ex m 600) = INFEASIBLE \<and>
        u_four_way_partition env_ex init_ex [] [] 0 (1 / 2) 600 12000 12000 12000 = Inr [])"
proof (intro conjI)
  from model_ex[of "4 / 5" 600] obtain m where
    m: "four_way_model env_ex init_ex [] [] 0 (4 / 5) 12000 12000 12000 = Inr m"
    and o: "optimize env_ex m 600 = \<lparr>status = OPTIMAL, var_x = sol_ex\<rparr>"
    by auto
  have st: "status (optimize env_ex m 600) = OPTIMAL" by (simp add: o)
  have d: "distinct (map fst init_ex)" by (simp add: init_ex_def)
  have bin: "\<forall>a\<in>snd ` set (fst (y_vars env_ex (map fst init_ex))) \<union>
            snd ` set (snd (y_vars env_ex (map fst init_ex))).
          - 1 < var_x (optimize env_ex m 600) a \<and> var_x (optimize env_ex m 600) a < 2"
    by (simp add: y_vars_ex o sol_ex_def)
  note inst = four_way_solve_by_status[where env = env_ex and init_v2s = init_ex and gc = "[]"
      and pa = "[]" and sm = 0 and r = "4 / 5" and ?w01.0 = 12000 and ?w12.0 = 12000
      and ?w23.0 = 12000 and m = m and t = 600]
  from inst m st d bin leaves_ex
  have "\<exists>res. u_four_way_partition env_ex init_ex [] [] 0 (4 / 5) 600 12000 12000 12000 = Inr res \<and>
               map fst res = map fst init_ex"
    by auto
  with m st show "\<exists>m. four_way_model env_ex init_ex [] [] 0 (4 / 5) 12000 12000 12000 = Inr m \<and>
        status (optimize env_ex m 600) = OPTIMAL \<and>
        (\<exists>res. u_four_way_partition env_ex init_ex [] [] 0 (4 / 5) 600 12000 12000 12000 = Inr res \<and>
               map fst res = map fst init_ex)"
    by (intro exI[of _ m] conjI)
next
  from model_ex[of "1 / 2" 600] obtain m where
    m: "four_way_model env_ex init_ex [] [] 0 (1 / 2) 12000 12000 12000 = Inr m"
    and o: "optimize env_ex m 600 = \<lparr>status = INFEASIBLE, var_x = (\<lambda>_. 0)\<rparr>"
    by auto
  have st: "status (optimize env_ex m 600) = INFEASIBLE" by (simp add: o)
  note inst = four_way_solve_by_status[where env = env_ex and init_v2s = init_ex and gc = "[]"
      and pa = "[]" and sm = 0 and r = "1 / 2" and ?w01.0 = 12000 and ?w12.0 = 12000
      and ?w23.0 = 12000 and m = m and t = 600]
  from inst m st
  have "u_four_way_partition env_ex init_ex [] [] 0 (1 / 2) 600 12000 12000 12000 = Inr []"
    by simp
  with m st show "\<exists>m. four_way_model env_ex init_ex [] [] 0 (1 / 2) 12000 12000 12000 = Inr m \<and>
        status (optimize env_ex m 600) = INFEASIBLE \<and>
        u_four_way_partition env_ex init_ex [] [] 0 (1 / 2) 600 12000 12000 12000 = Inr []"
    by (intro exI[of _ m] conjI)
qed

lemma pre_assign_outside:
  assumes "v \<in> set v_list"
    and "\<And>avail. avail \<in> fst ` set slot_to_idx \<Longrightarrow> \<not> containsChildSlot env avail expect_slot"
  shows "pre_assign env v_list slot_to_idx y1 y2 (v, expect_slot) m = Inr m"
proof -
  have "for_each (map fst slot_to_idx)
          (pre_assign_leaf env slot_to_idx y1 y2 v expect_slot) m = Inr m"
    by (rule for_each_unchanged) (use assms(2) in \<open>auto simp: pre_assign_leaf_def\<close>)
  with assms(1) show ?thesis by (simp add: pre_assign_def)
qed

lemma u_add_pre_assignment_outside:
  assumes "v \<in> set v_list"
    and "\<And>avail. avail \<in> fst ` set slot_to_idx \<Longrightarrow> \<not> containsChildSlot env avail expect_slot"
  shows "u_add_pre_assignment env m v_list slot_to_idx (ps1 @ (v, expect_slot) # ps2) y1 y2 =
         u_add_pre_assignment env m v_list slot_to_idx (ps1 @ ps2) y1 y2"
  unfolding u_add_pre_assignment_def for_each_append
  by (auto simp: bind_err_def pre_assign_outside[OF assms] split: sum.splits)

lemma slot_to_idx_keys_loop:
  "for_each ps (\<lambda>(y1, y2) slot_to_idx. bind_err (func y1 y2)
       (\<lambda>slot. Inr (AList.update slot (y1, y2) slot_to_idx))) acc = Inr res \<Longrightarrow>
     fst ` set res \<subseteq> fst ` set acc \<union> {s. \<exists>a b. func a b = Inr s}"
proof (induction ps arbitrary: acc)
  case Nil
  then show ?case by auto
next
  case (Cons p ps)
  obtain a b where p: "p = (a, b)" by (cases p)
  from Cons.prems obtain s where s: "func a b = Inr s"
    and rest: "for_each ps (\<lambda>(y1, y2) slot_to_idx. bind_err (func y1 y2)
       (\<lambda>slot. Inr (AList.update slot (y1, y2) slot_to_idx))) (AList.update s (a, b) acc) = Inr res"
    by (auto simp: p bind_err_def split: sum.splits)
  from Cons.IH[OF rest] s show ?case by (auto simp: dom_update)
qed

lemma slot_to_idx_keys:
  "u_get_slot_to_idx (u_get_slot_by_idx_closure env sm) = Inr slot_to_idx \<Longrightarrow>
     fst ` set slot_to_idx \<subseteq> set (getLeafSlotsAfterPartition env sm [horizontal, horizontal])"
  unfolding u_get_slot_to_idx_def
  by (drule slot_to_idx_keys_loop) (auto dest: closure_mem)

lemma add_constraints_outside:
  assumes "v \<in> set v_list"
    and "\<And>leaf. leaf \<in> set (getLeafSlotsAfterPartition env sm [horizontal, horizontal]) \<Longrightarrow>
           \<not> containsChildSlot env leaf expect_slot"
  shows "add_constraints env m v_list y1 y2 (u_get_slot_by_idx_closure env sm) gc
           (ps1 @ (v, expect_slot) # ps2) r w01 w12 w23 =
         add_constraints env m v_list y1 y2 (u_get_slot_by_idx_closure env sm) gc
           (ps1 @ ps2) r w01 w12 w23"
proof (cases "u_get_slot_to_idx (u_get_slot_by_idx_closure env sm)")
  case (Inl e)
  then show ?thesis by (simp add: add_constraints_def bind_err_def)
next
  case (Inr slot_to_idx)
  from slot_to_idx_keys[OF Inr] assms(2)
  have out: "\<not> containsChildSlot env avail expect_slot" if "avail \<in> fst ` set slot_to_idx" for avail
    using that by auto
  have eq: "u_add_pre_assignment env m' v_list slot_to_idx (ps1 @ (v, expect_slot) # ps2) y1 y2 =
         u_add_pre_assignment env m' v_list slot_to_idx (ps1 @ ps2) y1 y2" for m'
    using assms(1) out by (rule u_add_pre_assignment_outside)
  have "bind_err (Inr slot_to_idx) f = f slot_to_idx" for f :: "_ \<Rightarrow> error + Model"
    by (simp add: bind_err_def)
  then show ?thesis by (simp add: add_constraints_def Inr eq)
qed

text \<open>
  C2. The claim asks for a configuration error when a pre-assignment \<open>(v, expected_slot)\<close>
  names a slot that no current leaf contains. The code has no such check:
  \<^verbatim>\<open>_add_pre_assignment\<close> asserts that \<open>v\<close> is a vertex of \<^verbatim>\<open>init_v2s\<close>, and then only loops
  over the leaves. What the code does instead, for every such pre-assignment of a vertex
  of \<^verbatim>\<open>init_v2s\<close>: it adds no constraint, and the model handed to the solver and the result
  of the call are those of the same call without that pre-assignment, so the vertex is
  placed as if it had not been forced.
\<close>
theorem pre_assignment_outside_leaves_ignored:
  "v \<in> set (map fst init_v2s) \<and>
   (\<forall>leaf\<in>set (getLeafSlotsAfterPartition env sm [horizontal, horizontal]).
      \<not> containsChildSlot env leaf expect_slot) \<longrightarrow>
   four_way_model env init_v2s gc (ps1 @ (v, expect_slot) # ps2) sm r w01 w12 w23 =
     four_way_model env init_v2s gc (ps1 @ ps2) sm r w01 w12 w23 \<and>
   u_four_way_partition env init_v2s gc (ps1 @ (v, expect_slot) # ps2) sm r t w01 w12 w23 =
     u_four_way_partition env init_v2s gc (ps1 @ ps2) sm r t w01 w12 w23"
proof
  assume a: "v \<in> set (map fst init_v2s) \<and>
   (\<forall>leaf\<in>set (getLeafSlotsAfterPartition env sm [horizontal, horizontal]).
      \<not> containsChildSlot env leaf expect_slot)"
  then have v: "v \<in> set (map fst init_v2s)"
    and out: "\<And>leaf. leaf \<in> set (getLeafSlotsAfterPartition env sm [horizontal, horizontal]) \<Longrightarrow>
           \<not> containsChildSlot env leaf expect_slot"
    by auto
  have model: "four_way_model env init_v2s gc (ps1 @ (v, expect_slot) # ps2) sm r w01 w12 w23 =
     four_way_model env init_v2s gc (ps1 @ ps2) sm r w01 w12 w23"
    unfolding four_way_model_def Let_def
    by (simp add: add_constraints_outside[OF v out] split: prod.splits)
  then show "four_way_model env init_v2s gc (ps1 @ (v, expect_slot) # ps2) sm r w01 w12 w23 =
     four_way_model env init_v2s gc (ps1 @ ps2) sm r w01 w12 w23 \<and>
   u_four_way_partition env init_v2s gc (ps1 @ (v, expect_slot) # ps2) sm r t w01 w12 w23 =
     u_four_way_partition env init_v2s gc (ps1 @ ps2) sm r t w01 w12 w23"
    by (simp add: u_four_way_partition_model)
qed

lemma four_way_pre_ex:
  "u_four_way_partition env_ex init_ex [] [(0, 9)] 0 r t 12000 12000 12000 =
     (if 76 \<le> 100 * r then Inr [(0, 0), (1, 0)] else Inr [])"
  by (simp add: four_way_eval env_ex_def init_ex_def sol_ex_def)

text \<open>
  An input on which the code departs from the claim: with the vertex \<open>A = 0\<close> forced to the
  slot \<open>9\<close>, which no leaf contains, the call raises nothing and returns a mapping.
\<close>

theorem pre_assignment_outside_leaves_counterexample:
  "getLeafSlotsAfterPartition env_ex 0 [horizontal, horizontal] = [0, 1, 2, 3] \<and>
   \<not> containsChildSlot env_ex 0 9 \<and> \<not> containsChildSlot env_ex 1 9 \<and>
   \<not> containsChildSlot env_ex 2 9 \<and> \<not> containsChildSlot env_ex 3 9 \<and>
   u_four_way_partition env_ex init_ex [] [(0, 9)] 0 (4 / 5) 600 12000 12000 12000 =
     Inr [(0, 0), (1, 0)]"
  by (simp add: four_way_pre_ex) (simp add: env_ex_def)

theorem pre_assignment_outside_leaves_ignored_witness:
  "0 \<in> set (map fst init_ex) \<and>
   getLeafSlotsAfterPartition env_ex 0 [horizontal, horizontal] = [0, 1, 2, 3] \<and>
   \<not> containsChildSlot env_ex 0 9 \<and> \<not> containsChildSlot env_ex 1 9 \<and>
   \<not> containsChildSlot env_ex 2 9 \<and> \<not> containsChildSlot env_ex 3 9 \<and>
   four_way_model env_ex init_ex [] [(0, 9)] 0 (4 / 5) 12000 12000 12000 =
     four_way_model env_ex init_ex [] [] 0 (4 / 5) 12000 12000 12000 \<and>
   u_four_way_partition env_ex init_ex [] [(0, 9)] 0 (4 / 5) 600 12000 12000 12000 =
     u_four_way_partition env_ex init_ex [] [] 0 (4 / 5) 600 12000 12000 12000"
proof -
  have a: "0 \<in> set (map fst init_ex)" by (simp add: init_ex_def)
  have l: "getLeafSlotsAfterPartition env_ex 0 [horizontal, horizontal] = [0, 1, 2, 3]"
    by (simp add: env_ex_def)
  have c: "\<not> containsChildSlot env_ex 0 9" "\<not> containsChildSlot env_ex 1 9"
    "\<not> containsChildSlot env_ex 2 9" "\<not> containsChildSlot env_ex 3 9"
    by (simp_all add: env_ex_def)
  from l c have b: "\<forall>leaf\<in>set (getLeafSlotsAfterPartition env_ex 0 [horizontal, horizontal]).
      \<not> containsChildSlot env_ex leaf 9"
    by simp
  from pre_assignment_outside_leaves_ignored[where v = 0 and init_v2s = init_ex and env = env_ex
      and sm = 0 and expect_slot = 9 and gc = "[]" and ?ps1.0 = "[]" and ?ps2.0 = "[]"
      and r = "4 / 5" and t = 600 and ?w01.0 = 12000 and ?w12.0 = 12000 and ?w23.0 = 12000] a b
  have "four_way_model env_ex init_ex [] [(0, 9)] 0 (4 / 5) 12000 12000 12000 =
     four_way_model env_ex init_ex [] [] 0 (4 / 5) 12000 12000 12000 \<and>
   u_four_way_partition env_ex init_ex [] [(0, 9)] 0 (4 / 5) 600 12000 12000 12000 =
     u_four_way_partition env_ex init_ex [] [] 0 (4 / 5) 600 12000 12000 12000"
    by simp
  with a l c show ?thesis by (intro conjI) simp_all
qed

end
